theory Spec2Isabelle
  imports Complex_Main
begin

section \<open>MAX2870 frequency calculators\<close>

text \<open>
  Two scripts are embedded: \<^verbatim>\<open>MAX2870pf.py\<close> (fixed reference; names prefixed
  \<open>pf_\<close> where the scripts differ) and \<^verbatim>\<open>MAX2870spf.py\<close> (reference sweep;
  prefix \<open>spf_\<close>).  Both are straight-line scripts over module-level variables; the
  variables become the fields of a state record that every loop takes and returns.

  Numbers: Python \<open>int\<close> is \<^typ>\<open>int\<close>.  Python \<open>float\<close> is read as an exact
  rational (\<^typ>\<open>rat\<close>): every finite double is a rational number, comparisons of
  doubles are exact, and the arithmetic is taken without rounding error.  Statements
  below are therefore about the scripts under exact arithmetic.
\<close>

subsection \<open>Python primitives\<close>

text \<open>\<^verbatim>\<open>int(x)\<close> on a float truncates towards zero.\<close>

definition int_trunc :: "rat \<Rightarrow> int" where
  "int_trunc x = (if 0 \<le> x then \<lfloor>x\<rfloor> else \<lceil>x\<rceil>)"

text \<open>\<^verbatim>\<open>math.remainder(x, y)\<close>: \<open>x - n * y\<close> with \<open>n\<close> the integer nearest to
  \<open>x / y\<close>, ties to even.\<close>

definition round_half_even :: "rat \<Rightarrow> int" where
  "round_half_even q =
     (if q - of_int \<lfloor>q\<rfloor> < 1 / 2 then \<lfloor>q\<rfloor>
      else if 1 / 2 < q - of_int \<lfloor>q\<rfloor> then \<lfloor>q\<rfloor> + 1
      else if even \<lfloor>q\<rfloor> then \<lfloor>q\<rfloor> else \<lfloor>q\<rfloor> + 1)"

definition math_remainder :: "rat \<Rightarrow> rat \<Rightarrow> rat" where
  "math_remainder x y = x - of_int (round_half_even (x / y)) * y"

text \<open>\<^verbatim>\<open>range(n)\<close> for the \<open>for\<close> loops.\<close>

definition py_range :: "int \<Rightarrow> int list" where
  "py_range n = [0..n - 1]"

subsection \<open>Limits (module-level constants)\<close>

definition MaximumR :: int where "MaximumR = 1023"
definition MaximumMod :: int where "MaximumMod = 4095"
definition MinimumPFDFrequency :: rat where "MinimumPFDFrequency = 125000"
definition pf_MinimumRFFrequency :: rat where "pf_MinimumRFFrequency = 23475000"
definition spf_MinimumRFFrequency :: rat where "spf_MinimumRFFrequency = 2347500"
definition MaximumRFFrequency :: rat where "MaximumRFFrequency = 6000000000"
definition MinimumReferenceFrequency :: int where "MinimumReferenceFrequency = 10000000"
definition MaximumReferenceFrequency :: int where "MaximumReferenceFrequency = 200000000"

subsection \<open>State\<close>

text \<open>
  The module-level variables both scripts assign to.  \<open>MinimumInt\<close>, \<open>MaximumInt\<close>
  and \<open>MaximumPFDFrequency\<close> are variables too: the scripts overwrite them when they
  switch from the integer to the fractional profile.
\<close>

record solver_state =
  DesiredFrequency :: rat
  MinimumInt :: int
  MaximumInt :: int
  MaximumPFDFrequency :: rat
  NegativeFrequencyError :: bool
  MatchAttempted :: bool
  FrequencyError :: rat
  MatchingR :: int
  MatchingInt :: rat
  MatchingMod :: int
  MatchingFrac :: int
  MatchingDivider :: int
  MatchingDivider_PowerOf2 :: nat
  FractionalMode :: bool

text \<open>The sweep script has three more.\<close>

record sweep_state = solver_state +
  IntegerMode :: bool
  FinalReferenceFrequency :: int
  RFOutOfRangePrinted :: bool

subsection \<open>VCO normalisation (the \<open>while\<close> loop of both scripts)\<close>

text \<open>
  \<^verbatim>\<open>while DesiredFrequency < (MaximumRFFrequency / 2):
      MatchingDivider_PowerOf2 += 1
      DesiredFrequency *= 2\<close>
  The loop runs forever on a frequency that is not positive, so it is a partial function:
  \<open>None\<close> is "does not return".
\<close>

partial_function (option) vco_loop :: "'a solver_state_scheme \<Rightarrow> 'a solver_state_scheme option" where
  "vco_loop s =
     (if DesiredFrequency s < MaximumRFFrequency / 2
      then vco_loop (s\<lparr>MatchingDivider_PowerOf2 := MatchingDivider_PowerOf2 s + 1,
                        DesiredFrequency := DesiredFrequency s * 2\<rparr>)
      else Some s)"

declare vco_loop.simps [code]

text \<open>\<^verbatim>\<open>MatchingDivider = 2**MatchingDivider_PowerOf2\<close>\<close>

definition set_divider :: "'a solver_state_scheme \<Rightarrow> 'a solver_state_scheme" where
  "set_divider s = s\<lparr>MatchingDivider := 2 ^ MatchingDivider_PowerOf2 s\<rparr>"

subsection \<open>Integer-mode search\<close>

text \<open>
  \<^verbatim>\<open>MAX2870pf.py\<close>, lines 53-68.  A \<open>break\<close> returns the state; the loop variable
  runs over the list it is given.
\<close>

fun pf_integer_loop :: "rat \<Rightarrow> int list \<Rightarrow> 'a solver_state_scheme \<Rightarrow> 'a solver_state_scheme" where
  "pf_integer_loop ReferenceFrequency [] s = s"
| "pf_integer_loop ReferenceFrequency (RtoMatch # rs) s =
     (if RtoMatch > 0 \<and> ReferenceFrequency / of_int RtoMatch \<ge> MinimumPFDFrequency
          \<and> ReferenceFrequency / of_int RtoMatch \<le> MaximumPFDFrequency s
      then
        (let IntTemp = DesiredFrequency s / (ReferenceFrequency / of_int RtoMatch) in
         if IntTemp \<ge> of_int (MinimumInt s) \<and> IntTemp \<le> of_int (MaximumInt s)
         then
           (if math_remainder IntTemp 1 = 0
            then s\<lparr>MatchAttempted := True, FractionalMode := False,
                   MatchingR := RtoMatch, MatchingInt := IntTemp\<rparr>
            else pf_integer_loop ReferenceFrequency rs (s\<lparr>MatchAttempted := True\<rparr>))
         else s)
      else if RtoMatch > 0 then s
      else pf_integer_loop ReferenceFrequency rs s)"

text \<open>
  \<^verbatim>\<open>MAX2870spf.py\<close>, lines 75-90: no \<open>break\<close> on a PFD frequency out of range, and
  the match also records the reference and resets \<open>MatchingMod\<close> and \<open>MatchingFrac\<close>.
\<close>

fun spf_integer_loop :: "int \<Rightarrow> int list \<Rightarrow> sweep_state \<Rightarrow> sweep_state" where
  "spf_integer_loop ReferenceFrequencyToMatch [] s = s"
| "spf_integer_loop ReferenceFrequencyToMatch (RtoMatch # rs) s =
     (if RtoMatch > 0 \<and> of_int ReferenceFrequencyToMatch / of_int RtoMatch \<ge> MinimumPFDFrequency
          \<and> of_int ReferenceFrequencyToMatch / of_int RtoMatch \<le> MaximumPFDFrequency s
      then
        (let IntTemp = DesiredFrequency s / (of_int ReferenceFrequencyToMatch / of_int RtoMatch) in
         if IntTemp \<ge> of_int (MinimumInt s) \<and> IntTemp \<le> of_int (MaximumInt s)
         then
           (if math_remainder IntTemp 1 = 0
            then s\<lparr>MatchAttempted := True, FractionalMode := False,
                   MatchingR := RtoMatch, MatchingInt := IntTemp,
                   MatchingMod := 2, MatchingFrac := 0,
                   FinalReferenceFrequency := ReferenceFrequencyToMatch\<rparr>
            else spf_integer_loop ReferenceFrequencyToMatch rs (s\<lparr>MatchAttempted := True\<rparr>))
         else s)
      else spf_integer_loop ReferenceFrequencyToMatch rs s)"

subsection \<open>Fractional-mode search\<close>

text \<open>
  \<^verbatim>\<open>if ((FracToMatch - int(FracToMatch)) >= 0.5): FracToMatch = math.ceil(FracToMatch)
  else: FracToMatch = math.floor(FracToMatch)
  if FracToMatch >= ModToMatch: FracToMatch = (ModToMatch - 1)\<close>
\<close>

definition round_frac :: "rat \<Rightarrow> int" where
  "round_frac FracToMatch =
     (if FracToMatch - of_int (int_trunc FracToMatch) \<ge> 1 / 2
      then \<lceil>FracToMatch\<rceil> else \<lfloor>FracToMatch\<rfloor>)"

definition clamp_frac :: "int \<Rightarrow> int \<Rightarrow> int" where
  "clamp_frac ModToMatch FracToMatch =
     (if FracToMatch \<ge> ModToMatch then ModToMatch - 1 else FracToMatch)"

text \<open>The signed error of one candidate, \<^verbatim>\<open>FrequencyRemainder - ModFrequencyStep * FracToMatch\<close>,
  in terms of the reference, \<open>R\<close> and \<open>MOD\<close>.\<close>

definition ModFrequencyStep :: "rat \<Rightarrow> int \<Rightarrow> int \<Rightarrow> rat" where
  "ModFrequencyStep ref RtoMatch ModToMatch = ref / of_int RtoMatch / of_int ModToMatch"

definition FracToMatch :: "rat \<Rightarrow> rat \<Rightarrow> int \<Rightarrow> int \<Rightarrow> int" where
  "FracToMatch ref FrequencyRemainder RtoMatch ModToMatch =
     clamp_frac ModToMatch (round_frac (FrequencyRemainder / ModFrequencyStep ref RtoMatch ModToMatch))"

definition signed_error :: "rat \<Rightarrow> rat \<Rightarrow> int \<Rightarrow> int \<Rightarrow> rat" where
  "signed_error ref FrequencyRemainder RtoMatch ModToMatch =
     FrequencyRemainder - ModFrequencyStep ref RtoMatch ModToMatch
        * of_int (FracToMatch ref FrequencyRemainder RtoMatch ModToMatch)"

text \<open>
  \<^verbatim>\<open>MAX2870pf.py\<close>, lines 85-105: the body of \<open>if ModToMatch >= 2\<close> up to the test for
  an exact match.  \<open>FrequencyError\<close> is overwritten by every candidate; the candidate is
  recorded when its error is below \<open>OldFrequencyError\<close>, the value \<open>FrequencyError\<close> had
  when the iteration began.
\<close>

definition pf_mod_step ::
  "rat \<Rightarrow> rat \<Rightarrow> int \<Rightarrow> int \<Rightarrow> int \<Rightarrow> 'a solver_state_scheme \<Rightarrow> 'a solver_state_scheme" where
  "pf_mod_step ref FrequencyRemainder RtoMatch IntTemp ModToMatch s =
     (let OldFrequencyError = FrequencyError s;
          e = signed_error ref FrequencyRemainder RtoMatch ModToMatch;
          s1 = (if e < 0
                then s\<lparr>FrequencyError := e * (- 1), NegativeFrequencyError := True\<rparr>
                else s\<lparr>FrequencyError := e, NegativeFrequencyError := False\<rparr>)
      in if FrequencyError s1 < OldFrequencyError
         then s1\<lparr>MatchingR := RtoMatch, MatchingInt := of_int IntTemp,
                 MatchingMod := ModToMatch,
                 MatchingFrac := FracToMatch ref FrequencyRemainder RtoMatch ModToMatch\<rparr>
         else s1)"

fun pf_mod_loop ::
  "rat \<Rightarrow> rat \<Rightarrow> int \<Rightarrow> int \<Rightarrow> int list \<Rightarrow> 'a solver_state_scheme \<Rightarrow> 'a solver_state_scheme" where
  "pf_mod_loop ref FrequencyRemainder RtoMatch IntTemp [] s = s"
| "pf_mod_loop ref FrequencyRemainder RtoMatch IntTemp (ModToMatch # ms) s =
     (if ModToMatch \<ge> 2
      then
        (let s' = pf_mod_step ref FrequencyRemainder RtoMatch IntTemp ModToMatch s in
         if FrequencyError s' = 0 then s'
         else pf_mod_loop ref FrequencyRemainder RtoMatch IntTemp ms s')
      else pf_mod_loop ref FrequencyRemainder RtoMatch IntTemp ms s)"

text \<open>\<^verbatim>\<open>MAX2870pf.py\<close>, lines 76-115.\<close>

fun pf_fractional_loop :: "rat \<Rightarrow> int list \<Rightarrow> 'a solver_state_scheme \<Rightarrow> 'a solver_state_scheme" where
  "pf_fractional_loop ReferenceFrequency [] s = s"
| "pf_fractional_loop ReferenceFrequency (RtoMatch # rs) s =
     (if RtoMatch > 0 \<and> ReferenceFrequency / of_int RtoMatch \<ge> MinimumPFDFrequency
          \<and> ReferenceFrequency / of_int RtoMatch \<le> MaximumPFDFrequency s
      then
        (let IntTemp = \<lfloor>DesiredFrequency s / (ReferenceFrequency / of_int RtoMatch)\<rfloor> in
         if IntTemp \<ge> MinimumInt s \<and> IntTemp \<le> MaximumInt s
         then
           (let FrequencyRemainder =
                  DesiredFrequency s - of_int IntTemp * (ReferenceFrequency / of_int RtoMatch);
                s' = pf_mod_loop ReferenceFrequency FrequencyRemainder RtoMatch IntTemp
                       (py_range (MaximumMod + 1)) (s\<lparr>MatchAttempted := True\<rparr>)
            in if FrequencyError s' = 0 then s'
               else pf_fractional_loop ReferenceFrequency rs s')
         else if IntTemp > MaximumInt s then s
         else pf_fractional_loop ReferenceFrequency rs s)
      else if RtoMatch > 0 then s
      else pf_fractional_loop ReferenceFrequency rs s)"

text \<open>
  \<^verbatim>\<open>MAX2870spf.py\<close>, lines 110-130: the candidate's error is \<open>NewFrequencyError\<close> and
  \<open>FrequencyError\<close> holds the best error so far.
\<close>

definition spf_mod_step ::
  "int \<Rightarrow> rat \<Rightarrow> int \<Rightarrow> int \<Rightarrow> int \<Rightarrow> sweep_state \<Rightarrow> sweep_state" where
  "spf_mod_step ReferenceFrequencyToMatch FrequencyRemainder RtoMatch IntTemp ModToMatch s =
     (let e = signed_error (of_int ReferenceFrequencyToMatch) FrequencyRemainder RtoMatch ModToMatch;
          NewFrequencyError = (if e < 0 then e * (- 1) else e);
          s1 = s\<lparr>NegativeFrequencyError := (e < 0)\<rparr>
      in if NewFrequencyError < FrequencyError s1
         then s1\<lparr>FinalReferenceFrequency := ReferenceFrequencyToMatch,
                 FrequencyError := NewFrequencyError,
                 MatchingR := RtoMatch, MatchingInt := of_int IntTemp,
                 MatchingMod := ModToMatch,
                 MatchingFrac := FracToMatch (of_int ReferenceFrequencyToMatch) FrequencyRemainder
                                   RtoMatch ModToMatch\<rparr>
         else s1)"

fun spf_mod_loop ::
  "int \<Rightarrow> rat \<Rightarrow> int \<Rightarrow> int \<Rightarrow> int list \<Rightarrow> sweep_state \<Rightarrow> sweep_state" where
  "spf_mod_loop ref FrequencyRemainder RtoMatch IntTemp [] s = s"
| "spf_mod_loop ref FrequencyRemainder RtoMatch IntTemp (ModToMatch # ms) s =
     (if ModToMatch \<ge> 2
      then
        (let s' = spf_mod_step ref FrequencyRemainder RtoMatch IntTemp ModToMatch s in
         if FrequencyError s' = 0 then s'
         else spf_mod_loop ref FrequencyRemainder RtoMatch IntTemp ms s')
      else spf_mod_loop ref FrequencyRemainder RtoMatch IntTemp ms s)"

text \<open>\<^verbatim>\<open>MAX2870spf.py\<close>, lines 101-134: the \<open>R\<close> loop has no \<open>break\<close> but the one on an
  exact match.\<close>

fun spf_fractional_loop :: "int \<Rightarrow> int list \<Rightarrow> sweep_state \<Rightarrow> sweep_state" where
  "spf_fractional_loop ReferenceFrequencyToMatch [] s = s"
| "spf_fractional_loop ReferenceFrequencyToMatch (RtoMatch # rs) s =
     (if RtoMatch > 0 \<and> of_int ReferenceFrequencyToMatch / of_int RtoMatch \<ge> MinimumPFDFrequency
          \<and> of_int ReferenceFrequencyToMatch / of_int RtoMatch \<le> MaximumPFDFrequency s
      then
        (let IntTemp = \<lfloor>DesiredFrequency s / (of_int ReferenceFrequencyToMatch / of_int RtoMatch)\<rfloor> in
         if IntTemp \<ge> MinimumInt s \<and> IntTemp \<le> MaximumInt s
         then
           (let FrequencyRemainder =
                  DesiredFrequency s
                    - of_int IntTemp * (of_int ReferenceFrequencyToMatch / of_int RtoMatch);
                s' = spf_mod_loop ReferenceFrequencyToMatch FrequencyRemainder RtoMatch IntTemp
                       (py_range (MaximumMod + 1)) (s\<lparr>MatchAttempted := True\<rparr>)
            in if FrequencyError s' = 0 then s'
               else spf_fractional_loop ReferenceFrequencyToMatch rs s')
         else spf_fractional_loop ReferenceFrequencyToMatch rs s)
      else spf_fractional_loop ReferenceFrequencyToMatch rs s)"

subsection \<open>What the scripts print\<close>

text \<open>The values printed after a match: \<open>R\<close>, \<open>Int\<close>, \<open>Mod\<close>, \<open>Frac\<close>, the RF divider
  ratio and its power of two.\<close>

record registers =
  out_R :: int
  out_Int :: rat
  out_Mod :: int
  out_Frac :: int
  out_Divider :: int
  out_PowerOf2 :: nat

definition registers_of :: "'a solver_state_scheme \<Rightarrow> registers" where
  "registers_of s =
     \<lparr>out_R = MatchingR s, out_Int = MatchingInt s, out_Mod = MatchingMod s,
      out_Frac = MatchingFrac s, out_Divider = MatchingDivider s,
      out_PowerOf2 = MatchingDivider_PowerOf2 s\<rparr>"

text \<open>
  \<^verbatim>\<open>MAX2870pf.py\<close> prints one of: "Reference frequency is out of range", "RF frequency
  is out of range", "Integer result within datasheet limits is not possible ...",
  "Integer mode - exact frequency" with the registers, or "Fractional mode" with the
  frequency error, the actual frequency and the registers.
\<close>

datatype pf_output =
    Reference_out_of_range
  | RF_out_of_range
  | Not_possible
  | Integer_mode registers
  | Fractional_mode rat rat registers

subsection \<open>\<^verbatim>\<open>MAX2870pf.py\<close>: the script\<close>

text \<open>The module-level initial values, after lines 41-43.\<close>

definition pf_initial :: "rat \<Rightarrow> rat \<Rightarrow> solver_state" where
  "pf_initial ReferenceFrequency rf =
     \<lparr>DesiredFrequency = rf, MinimumInt = 16, MaximumInt = 65535,
      MaximumPFDFrequency = 105000000,
      NegativeFrequencyError = False, MatchAttempted = False,
      FrequencyError = ReferenceFrequency,
      MatchingR = 1, MatchingInt = 1, MatchingMod = 2, MatchingFrac = 0,
      MatchingDivider = 1, MatchingDivider_PowerOf2 = 0, FractionalMode = True\<rparr>"

text \<open>Lines 52-115: integer mode first, then fractional mode under the fractional limits.\<close>

definition pf_fractional_section :: "rat \<Rightarrow> 'a solver_state_scheme \<Rightarrow> 'a solver_state_scheme" where
  "pf_fractional_section ReferenceFrequency s =
     (if FractionalMode s
      then pf_fractional_loop ReferenceFrequency (py_range (MaximumR + 1))
             (s\<lparr>MinimumInt := 19, MaximumInt := 4091, MaximumPFDFrequency := 50000000\<rparr>)
      else s)"

definition pf_search :: "rat \<Rightarrow> 'a solver_state_scheme \<Rightarrow> 'a solver_state_scheme" where
  "pf_search ReferenceFrequency s =
     pf_fractional_section ReferenceFrequency
       (pf_integer_loop ReferenceFrequency (py_range (MaximumR + 1)) s)"

text \<open>Lines 117-135.\<close>

definition pf_report :: "'a solver_state_scheme \<Rightarrow> pf_output" where
  "pf_report s =
     (if MatchAttempted s
      then
        (let rf = DesiredFrequency s / of_int (MatchingDivider s) in
         if FractionalMode s
         then
           (let e = (if NegativeFrequencyError s then FrequencyError s * (- 1) else FrequencyError s)
                      / of_int (MatchingDivider s)
            in Fractional_mode e (rf + e) (registers_of s))
         else Integer_mode (registers_of s))
      else Not_possible)"

definition pf_main :: "rat \<Rightarrow> rat \<Rightarrow> pf_output option" where
  "pf_main ReferenceFrequency rf =
     (if ReferenceFrequency \<ge> of_int MinimumReferenceFrequency
         \<and> ReferenceFrequency \<le> of_int MaximumReferenceFrequency
      then
        (if rf \<ge> pf_MinimumRFFrequency \<and> rf \<le> MaximumRFFrequency
         then
           (case vco_loop (pf_initial ReferenceFrequency rf) of
              None \<Rightarrow> None
            | Some s \<Rightarrow> Some (pf_report (pf_search ReferenceFrequency (set_divider s))))
         else Some RF_out_of_range)
      else Some Reference_out_of_range)"

subsection \<open>\<^verbatim>\<open>MAX2870spf.py\<close>: the script\<close>

text \<open>Lines 48-56: the step count and the start reference are adjusted before the sweep.
  The result is the pair (start, steps) the sweep uses.\<close>

definition spf_clamp :: "int \<Rightarrow> int \<Rightarrow> int \<times> int" where
  "spf_clamp ReferenceFrequencyStart ReferenceSteps =
     (let steps = (if ReferenceSteps > MaximumReferenceFrequency - MinimumReferenceFrequency
                   then MaximumReferenceFrequency - MinimumReferenceFrequency
                   else ReferenceSteps);
          start1 = (if ReferenceFrequencyStart + steps > MaximumReferenceFrequency
                    then MaximumReferenceFrequency - steps
                    else ReferenceFrequencyStart);
          start2 = (if start1 < MinimumReferenceFrequency
                    then MinimumReferenceFrequency else start1)
      in (start2, steps))"

text \<open>The module-level initial values.  \<open>FractionalMode\<close> is first assigned inside the
  sweep loop and is read only after a match was attempted there.\<close>

definition spf_initial :: "rat \<Rightarrow> sweep_state" where
  "spf_initial rf =
     \<lparr>DesiredFrequency = rf, MinimumInt = 16, MaximumInt = 65535,
      MaximumPFDFrequency = 45000000,
      NegativeFrequencyError = False, MatchAttempted = False,
      FrequencyError = of_int MaximumReferenceFrequency,
      MatchingR = 1, MatchingInt = 1, MatchingMod = 2, MatchingFrac = 0,
      MatchingDivider = 1, MatchingDivider_PowerOf2 = 0, FractionalMode = True,
      IntegerMode = True, FinalReferenceFrequency = 0, RFOutOfRangePrinted = False\<rparr>"

text \<open>Lines 73-90 and 95-134.\<close>

definition spf_integer_section :: "int \<Rightarrow> sweep_state \<Rightarrow> sweep_state" where
  "spf_integer_section ReferenceFrequencyToMatch s =
     (if IntegerMode s
      then spf_integer_loop ReferenceFrequencyToMatch (py_range (MaximumR + 1))
             (s\<lparr>MaximumPFDFrequency := 105000000\<rparr>)
      else s)"

definition spf_fractional_section :: "int \<Rightarrow> sweep_state \<Rightarrow> sweep_state" where
  "spf_fractional_section ReferenceFrequencyToMatch s =
     (if FractionalMode s
      then spf_fractional_loop ReferenceFrequencyToMatch (py_range (MaximumR + 1))
             (s\<lparr>IntegerMode := False, MinimumInt := 19, MaximumInt := 4091,
                MaximumPFDFrequency := 50000000\<rparr>)
      else s)"

text \<open>Lines 58-136: the sweep over the reference steps.  The three \<open>break\<close>s return the
  state: the RF frequency out of range, an integer match, an exact fractional match.\<close>

fun spf_sweep_loop :: "int \<Rightarrow> int list \<Rightarrow> sweep_state \<Rightarrow> sweep_state option" where
  "spf_sweep_loop ReferenceFrequencyStart [] s = Some s"
| "spf_sweep_loop ReferenceFrequencyStart (ReferenceFrequencyStepToMatch # steps) s =
     (let ReferenceFrequencyToMatch = ReferenceFrequencyStart + ReferenceFrequencyStepToMatch;
          s0 = s\<lparr>FractionalMode := True\<rparr>
      in if DesiredFrequency s0 \<ge> spf_MinimumRFFrequency \<and> DesiredFrequency s0 \<le> MaximumRFFrequency
         then
           (case vco_loop s0 of
              None \<Rightarrow> None
            | Some s1 \<Rightarrow>
               (let s2 = spf_integer_section ReferenceFrequencyToMatch (set_divider s1) in
                if IntegerMode (set_divider s1) \<and> \<not> FractionalMode s2 then Some s2
                else
                  (let s3 = spf_fractional_section ReferenceFrequencyToMatch s2 in
                   if FrequencyError s3 = 0 then Some s3
                   else spf_sweep_loop ReferenceFrequencyStart steps s3)))
         else Some (s0\<lparr>RFOutOfRangePrinted := True\<rparr>))"

text \<open>
  \<^verbatim>\<open>MAX2870spf.py\<close> prints "R and/or Int values within datasheet limits are not possible
  ...", or "Integer mode - exact frequency" with the registers and the reference, or
  "Fractional mode" with the error, the actual frequency, the registers and the
  reference.  "RF frequency is out of range" is printed before that when the sweep
  stopped on it.
\<close>

datatype spf_result =
    Sweep_not_possible
  | Sweep_integer_mode registers int
  | Sweep_fractional_mode rat rat registers int

text \<open>Lines 138-157.  The division by the divider is inside the branch of the negative
  error, as in the script.\<close>

definition spf_report :: "sweep_state \<Rightarrow> spf_result" where
  "spf_report s =
     (if MatchAttempted s
      then
        (let rf = DesiredFrequency s / of_int (MatchingDivider s) in
         if FractionalMode s
         then
           (let e = (if NegativeFrequencyError s
                     then FrequencyError s * (- 1) / of_int (MatchingDivider s)
                     else FrequencyError s)
            in Sweep_fractional_mode e (rf + e) (registers_of s) (FinalReferenceFrequency s))
         else Sweep_integer_mode (registers_of s) (FinalReferenceFrequency s))
      else Sweep_not_possible)"

definition spf_main :: "rat \<Rightarrow> int \<Rightarrow> int \<Rightarrow> (bool \<times> spf_result) option" where
  "spf_main rf ReferenceFrequencyStart ReferenceSteps =
     (case spf_clamp ReferenceFrequencyStart ReferenceSteps of
        (start, steps) \<Rightarrow>
          (case spf_sweep_loop start (py_range (steps + 1)) (spf_initial rf) of
             None \<Rightarrow> None
           | Some s \<Rightarrow> Some (RFOutOfRangePrinted s, spf_report s)))"

subsection \<open>An exact integer candidate\<close>

text \<open>
  The tests an \<open>R\<close> passes when an integer loop records it (lines 54-58 of
  \<^verbatim>\<open>MAX2870pf.py\<close>, 76-80 of \<^verbatim>\<open>MAX2870spf.py\<close>), under the integer-mode limits the
  loops run with: PFD frequency in \<open>[125 kHz, 105 MHz]\<close>, \<open>N\<close> in \<open>[16, 65535]\<close> and
  integral.
\<close>

definition exact_integer_candidate :: "rat \<Rightarrow> rat \<Rightarrow> int \<Rightarrow> bool" where
  "exact_integer_candidate ReferenceFrequency vco RtoMatch \<longleftrightarrow>
     RtoMatch > 0 \<and> ReferenceFrequency / of_int RtoMatch \<ge> MinimumPFDFrequency
     \<and> ReferenceFrequency / of_int RtoMatch \<le> 105000000
     \<and> vco / (ReferenceFrequency / of_int RtoMatch) \<ge> 16
     \<and> vco / (ReferenceFrequency / of_int RtoMatch) \<le> 65535
     \<and> math_remainder (vco / (ReferenceFrequency / of_int RtoMatch)) 1 = 0"

section \<open>Properties\<close>

subsection \<open>The sweep's clamping of start and step count\<close>

lemma set_py_range: "i \<in> set (py_range n) \<longleftrightarrow> 0 \<le> i \<and> i < n"
  by (auto simp: py_range_def)

text \<open>
  Claim C9.  Before the sweep, a step count above \<open>REF_max - REF_min\<close> is replaced by
  \<open>REF_max - REF_min\<close>; the start is moved down to \<open>REF_max - steps\<close> when
  \<open>start + steps\<close> exceeds \<open>REF_max\<close>, and then raised to \<open>REF_min\<close> when it is
  below it.  Afterwards \<open>start \<ge> REF_min\<close>, \<open>start + steps \<le> REF_max\<close>, and every
  reference \<open>start + i\<close> the sweep visits (\<open>i\<close> in \<open>range(steps + 1)\<close>) lies in
  \<open>[REF_min, REF_max]\<close>.
\<close>

theorem sweep_clamp_bounds:
  assumes "spf_clamp start steps = (start', steps')"
  shows "steps' = (if steps > MaximumReferenceFrequency - MinimumReferenceFrequency
                   then MaximumReferenceFrequency - MinimumReferenceFrequency else steps)
       \<and> start' = max MinimumReferenceFrequency
                     (if start + steps' > MaximumReferenceFrequency
                      then MaximumReferenceFrequency - steps' else start)
       \<and> MinimumReferenceFrequency \<le> start'
       \<and> start' + steps' \<le> MaximumReferenceFrequency
       \<and> (\<forall>i \<in> set (py_range (steps' + 1)).
             MinimumReferenceFrequency \<le> start' + i \<and> start' + i \<le> MaximumReferenceFrequency)"
  using assms
  by (auto simp: spf_clamp_def Let_def set_py_range MinimumReferenceFrequency_def
        MaximumReferenceFrequency_def split: if_splits)

theorem sweep_clamp_bounds_witness:
  "spf_clamp 5 1000000000 = (10000000, 190000000)
   \<and> (190000000::int) = MaximumReferenceFrequency - MinimumReferenceFrequency
   \<and> (190000000::int) \<in> set (py_range (190000000 + 1))
   \<and> MinimumReferenceFrequency \<le> 10000000 + 190000000
   \<and> (10000000::int) + 190000000 \<le> MaximumReferenceFrequency"
proof -
  have h: "spf_clamp 5 1000000000 = (10000000, 190000000)"
    by (simp add: spf_clamp_def Let_def MinimumReferenceFrequency_def MaximumReferenceFrequency_def)
  have m: "(190000000::int) \<in> set (py_range (190000000 + 1))"
    unfolding set_py_range by simp
  from sweep_clamp_bounds [OF h]
  have "\<forall>i \<in> set (py_range (190000000 + 1)).
          MinimumReferenceFrequency \<le> 10000000 + i \<and> 10000000 + i \<le> MaximumReferenceFrequency"
    by blast
  with m have "MinimumReferenceFrequency \<le> 10000000 + 190000000
      \<and> (10000000::int) + 190000000 \<le> MaximumReferenceFrequency"
    by blast
  moreover have "(190000000::int) = MaximumReferenceFrequency - MinimumReferenceFrequency"
    by (simp add: MinimumReferenceFrequency_def MaximumReferenceFrequency_def)
  ultimately show ?thesis using h m by blast
qed

subsection \<open>The doubling loop returns\<close>

lemma two_power_unbounded: "\<exists>n::nat. (x::rat) < 2 ^ n"
proof -
  obtain n :: nat where "x < of_nat n" using reals_Archimedean2 by blast
  also have "(of_nat n :: rat) < 2 ^ n" by (rule of_nat_less_two_power)
  finally show ?thesis by blast
qed

lemma vco_loop_unfold_lt:
  "DesiredFrequency s < MaximumRFFrequency / 2 \<Longrightarrow>
   vco_loop s = vco_loop (s\<lparr>MatchingDivider_PowerOf2 := MatchingDivider_PowerOf2 s + 1,
                             DesiredFrequency := DesiredFrequency s * 2\<rparr>)"
  by (subst vco_loop.simps) simp

lemma vco_loop_unfold_ge:
  "\<not> DesiredFrequency s < MaximumRFFrequency / 2 \<Longrightarrow> vco_loop s = Some s"
  by (subst vco_loop.simps) simp

lemma vco_loop_bounded:
  "0 < DesiredFrequency s \<Longrightarrow> MaximumRFFrequency / 2 \<le> DesiredFrequency s * 2 ^ n \<Longrightarrow>
   \<exists>k\<le>n. vco_loop s = Some (s\<lparr>MatchingDivider_PowerOf2 := MatchingDivider_PowerOf2 s + k,
                                    DesiredFrequency := DesiredFrequency s * 2 ^ k\<rparr>)
          \<and> MaximumRFFrequency / 2 \<le> DesiredFrequency s * 2 ^ k
          \<and> (k = 0 \<or> DesiredFrequency s * 2 ^ k < MaximumRFFrequency)"
proof (induction n arbitrary: s)
  case 0
  then have "vco_loop s = Some s" by (simp add: vco_loop_unfold_ge)
  then show ?case using 0 by (intro exI[of _ 0]) simp
next
  case (Suc n)
  show ?case
  proof (cases "DesiredFrequency s < MaximumRFFrequency / 2")
    case False
    then have "vco_loop s = Some s" by (simp add: vco_loop_unfold_ge)
    then show ?thesis using False by (intro exI[of _ 0]) simp
  next
    case True
    let ?s = "s\<lparr>MatchingDivider_PowerOf2 := MatchingDivider_PowerOf2 s + 1,
                 DesiredFrequency := DesiredFrequency s * 2\<rparr>"
    have pos: "0 < DesiredFrequency ?s" using Suc.prems by simp
    have big: "MaximumRFFrequency / 2 \<le> DesiredFrequency ?s * 2 ^ n"
      using Suc.prems by (simp add: mult.assoc)
    from Suc.IH[OF pos big] obtain k where k: "k \<le> n"
      "vco_loop ?s = Some (?s\<lparr>MatchingDivider_PowerOf2 := MatchingDivider_PowerOf2 ?s + k,
                                DesiredFrequency := DesiredFrequency ?s * 2 ^ k\<rparr>)"
      "MaximumRFFrequency / 2 \<le> DesiredFrequency ?s * 2 ^ k"
      "k = 0 \<or> DesiredFrequency ?s * 2 ^ k < MaximumRFFrequency"
      by blast
    have lt: "DesiredFrequency s * 2 ^ Suc k < MaximumRFFrequency"
      using k(4) True by (cases "k = 0") (auto simp: mult.assoc)
    show ?thesis
      using k(1,2,3) lt vco_loop_unfold_lt[OF True]
      by (intro exI[of _ "Suc k"]) (simp add: mult.assoc)
  qed
qed

text \<open>
  Claim C5, amended.  For a target frequency that is positive and at most \<open>RF_max\<close> (every
  frequency in \<open>[RF_min, RF_max]\<close> is), the doubling loop returns after some number \<open>k\<close>
  of passes with the VCO frequency \<open>target * 2 ^ k\<close> in the closed range
  \<open>[RF_max / 2, RF_max]\<close>, strictly below \<open>RF_max\<close> when the target is; the exponent has
  grown by \<open>k\<close>, and the divider computed from it is \<open>2\<close> to that exponent.
\<close>

theorem vco_normalisation:
  assumes "0 < DesiredFrequency s" and "DesiredFrequency s \<le> MaximumRFFrequency"
  shows "\<exists>k. vco_loop s = Some (s\<lparr>MatchingDivider_PowerOf2 := MatchingDivider_PowerOf2 s + k,
                                    DesiredFrequency := DesiredFrequency s * 2 ^ k\<rparr>)
            \<and> MaximumRFFrequency / 2 \<le> DesiredFrequency s * 2 ^ k
            \<and> DesiredFrequency s * 2 ^ k \<le> MaximumRFFrequency
            \<and> (DesiredFrequency s < MaximumRFFrequency \<longrightarrow>
                 DesiredFrequency s * 2 ^ k < MaximumRFFrequency)
            \<and> MatchingDivider (set_divider (s\<lparr>MatchingDivider_PowerOf2 := MatchingDivider_PowerOf2 s + k,
                                    DesiredFrequency := DesiredFrequency s * 2 ^ k\<rparr>))
                = 2 ^ (MatchingDivider_PowerOf2 s + k)"
proof -
  obtain n :: nat where "MaximumRFFrequency / 2 / DesiredFrequency s < 2 ^ n"
    using two_power_unbounded by blast
  then have "MaximumRFFrequency / 2 < 2 ^ n * DesiredFrequency s"
    using assms(1) by (simp add: divide_less_eq)
  then have "MaximumRFFrequency / 2 \<le> DesiredFrequency s * 2 ^ n"
    by (simp add: mult.commute)
  from vco_loop_bounded[OF assms(1) this] obtain k where k:
      "vco_loop s = Some (s\<lparr>MatchingDivider_PowerOf2 := MatchingDivider_PowerOf2 s + k,
                                DesiredFrequency := DesiredFrequency s * 2 ^ k\<rparr>)"
      "MaximumRFFrequency / 2 \<le> DesiredFrequency s * 2 ^ k"
      "k = 0 \<or> DesiredFrequency s * 2 ^ k < MaximumRFFrequency"
    by blast
  show ?thesis
    using k assms(2) by (intro exI[of _ k]) (auto simp: set_divider_def)
qed


subsection \<open>Evaluation helpers\<close>

text \<open>Ranges are unrolled one element at a time, where a loop needs the next one.\<close>

declare upto_rec_numeral [simp del]

lemma upto_head: "i \<le> j \<Longrightarrow> [i..j] = i # [i + 1..j]"
  by (rule upto_rec1)

lemma py_range_R: "py_range (MaximumR + 1) = 0 # 1 # [2..1023]"
proof -
  have "[0..(1023::int)] = 0 # [0 + 1..1023]" by (rule upto_head) simp
  moreover have "[1..(1023::int)] = 1 # [1 + 1..1023]" by (rule upto_head) simp
  ultimately show ?thesis by (simp add: py_range_def MaximumR_def)
qed

lemma py_range_Mod: "py_range (MaximumMod + 1) = 0 # 1 # [2..4095]"
proof -
  have "[0..(4095::int)] = 0 # [0 + 1..4095]" by (rule upto_head) simp
  moreover have "[1..(4095::int)] = 1 # [1 + 1..4095]" by (rule upto_head) simp
  ultimately show ?thesis by (simp add: py_range_def MaximumMod_def)
qed

lemma floor_rat_div [simp]: "\<lfloor>numeral a / numeral b :: rat\<rfloor> = numeral a div numeral b"
  by (metis floor_divide_of_int_eq of_int_numeral)
lemma floor_rat_one_div [simp]: "\<lfloor>1 / numeral b :: rat\<rfloor> = 1 div numeral b"
  by (metis floor_divide_of_int_eq of_int_1 of_int_numeral)
lemma ceiling_rat_div [simp]: "\<lceil>numeral a / numeral b :: rat\<rceil> = - (- numeral a div numeral b)"
  by (metis ceiling_divide_eq_div of_int_numeral)
lemma ceiling_rat_one_div [simp]: "\<lceil>1 / numeral b :: rat\<rceil> = - (- 1 div numeral b)"
  by (metis ceiling_divide_eq_div of_int_1 of_int_numeral)

lemmas limits = MinimumPFDFrequency_def pf_MinimumRFFrequency_def spf_MinimumRFFrequency_def
  MaximumRFFrequency_def MinimumReferenceFrequency_def MaximumReferenceFrequency_def

subsection \<open>Integers among the rationals\<close>

lemma math_remainder_1_zero_iff: "math_remainder x 1 = 0 \<longleftrightarrow> x \<in> \<int>"
proof
  assume "math_remainder x 1 = 0"
  then have "x = of_int (round_half_even x)" by (simp add: math_remainder_def)
  then show "x \<in> \<int>" by (metis Ints_of_int)
next
  assume "x \<in> \<int>"
  then obtain k where k: "x = of_int k" by (auto elim: Ints_cases)
  then show "math_remainder x 1 = 0"
    by (simp add: math_remainder_def round_half_even_def)
qed

lemma coprime_ratio_not_int:
  fixes a b k :: int
  assumes "coprime a b" and "0 < k" and "k < a"
  shows "(of_int b * of_int k / of_int a :: rat) \<notin> \<int>"
proof
  assume "(of_int b * of_int k / of_int a :: rat) \<in> \<int>"
  then obtain z where z: "(of_int b * of_int k / of_int a :: rat) = of_int z"
    by (auto elim: Ints_cases)
  have a0: "a \<noteq> 0" using assms by auto
  from z have "(of_int (b * k) :: rat) = of_int (z * a)"
    using a0 by (simp add: field_simps)
  then have "b * k = z * a" by (simp only: of_int_eq_iff)
  then have "a dvd b * k" by simp
  then have "a dvd k" using assms(1) by (simp add: coprime_dvd_mult_right_iff)
  then have "a \<le> k" using assms(2) by (rule zdvd_imp_le)
  then show False using assms(3) by simp
qed

subsection \<open>What the searches leave unchanged\<close>

lemma pf_mod_step_eq:
  "pf_mod_step ref rem R N M s =
     (if \<bar>signed_error ref rem R M\<bar> < FrequencyError s
      then s\<lparr>FrequencyError := \<bar>signed_error ref rem R M\<bar>,
             NegativeFrequencyError := signed_error ref rem R M < 0,
             MatchingR := R, MatchingInt := of_int N, MatchingMod := M,
             MatchingFrac := FracToMatch ref rem R M\<rparr>
      else s\<lparr>FrequencyError := \<bar>signed_error ref rem R M\<bar>,
             NegativeFrequencyError := signed_error ref rem R M < 0\<rparr>)"
  by (simp add: pf_mod_step_def Let_def abs_if)

lemma pf_mod_step_shape:
  "\<exists>r n m f. pf_mod_step ref rem R N M s =
     s\<lparr>FrequencyError := \<bar>signed_error ref rem R M\<bar>,
       NegativeFrequencyError := signed_error ref rem R M < 0,
       MatchingR := r, MatchingInt := n, MatchingMod := m, MatchingFrac := f\<rparr>"
proof (cases "\<bar>signed_error ref rem R M\<bar> < FrequencyError s")
  case True
  then show ?thesis unfolding pf_mod_step_eq by auto
next
  case False
  then have "pf_mod_step ref rem R N M s =
     s\<lparr>FrequencyError := \<bar>signed_error ref rem R M\<bar>,
       NegativeFrequencyError := signed_error ref rem R M < 0,
       MatchingR := MatchingR s, MatchingInt := MatchingInt s, MatchingMod := MatchingMod s,
       MatchingFrac := MatchingFrac s\<rparr>"
    unfolding pf_mod_step_eq by simp
  then show ?thesis by blast
qed

lemma pf_mod_loop_shape:
  "\<exists>fe neg r n m f. pf_mod_loop ref rem R N ms s =
     s\<lparr>FrequencyError := fe, NegativeFrequencyError := neg,
       MatchingR := r, MatchingInt := n, MatchingMod := m, MatchingFrac := f\<rparr>"
proof (induction ms arbitrary: s)
  case Nil
  have "s = s\<lparr>FrequencyError := FrequencyError s, NegativeFrequencyError := NegativeFrequencyError s,
       MatchingR := MatchingR s, MatchingInt := MatchingInt s, MatchingMod := MatchingMod s,
       MatchingFrac := MatchingFrac s\<rparr>" by simp
  then show ?case by (metis pf_mod_loop.simps(1))
next
  case (Cons M ms)
  obtain r n m f where st: "pf_mod_step ref rem R N M s =
     s\<lparr>FrequencyError := \<bar>signed_error ref rem R M\<bar>,
       NegativeFrequencyError := signed_error ref rem R M < 0,
       MatchingR := r, MatchingInt := n, MatchingMod := m, MatchingFrac := f\<rparr>"
    using pf_mod_step_shape by blast
  let ?s' = "pf_mod_step ref rem R N M s"
  from Cons.IH[of ?s'] obtain fe neg r' n' m' f' where
    "pf_mod_loop ref rem R N ms ?s' =
     ?s'\<lparr>FrequencyError := fe, NegativeFrequencyError := neg,
       MatchingR := r', MatchingInt := n', MatchingMod := m', MatchingFrac := f'\<rparr>" by blast
  then have a: "pf_mod_loop ref rem R N ms ?s' =
     s\<lparr>FrequencyError := fe, NegativeFrequencyError := neg,
       MatchingR := r', MatchingInt := n', MatchingMod := m', MatchingFrac := f'\<rparr>"
    by (simp add: st)
  show ?case
  proof (cases "2 \<le> M")
    case False
    then show ?thesis using Cons.IH[of s] by simp
  next
    case True
    show ?thesis
    proof (cases "FrequencyError ?s' = 0")
      case True
      with \<open>2 \<le> M\<close> have "pf_mod_loop ref rem R N (M # ms) s = ?s'" by (simp add: Let_def)
      then show ?thesis using st by metis
    next
      case False
      with \<open>2 \<le> M\<close> have "pf_mod_loop ref rem R N (M # ms) s = pf_mod_loop ref rem R N ms ?s'"
        by (simp add: Let_def)
      then show ?thesis using a by metis
    qed
  qed
qed

subsection \<open>Candidates that cannot be exact\<close>

lemma exact_candidate_ratio:
  fixes a b R M N f :: int
  assumes "(of_int b :: rat) - of_int N * (of_int a / of_int R)
             - of_int a / of_int R / of_int M * of_int f = 0"
      and "R \<noteq> 0" and "M \<noteq> 0" and "a \<noteq> 0"
  shows "(of_int b :: rat) * of_int (R * M) / of_int a = of_int (N * M + f)"
proof -
  define x :: rat where "x = of_int N + of_int f / of_int M"
  from assms(1) have "(of_int b :: rat) = (of_int a / of_int R) * x"
    by (simp add: x_def algebra_simps)
  then have "(of_int b :: rat) * of_int (R * M) / of_int a
               = (of_int a / of_int R) * x * (of_int R * of_int M) / of_int a" by simp
  also have "\<dots> = x * of_int M" using assms(2,4) by simp
  also have "\<dots> = of_int (N * M + f)" using assms(3) by (simp add: x_def field_simps)
  finally show ?thesis .
qed

lemma signed_error_nonzero:
  fixes a b R M N :: int
  assumes "coprime a b" and "0 < R" and "0 < M" and "R * M < a"
  shows "signed_error (of_int a) (of_int b - of_int N * (of_int a / of_int R)) R M \<noteq> 0"
proof
  define f where "f = FracToMatch (of_int a) (of_int b - of_int N * (of_int a / of_int R)) R M"
  assume "signed_error (of_int a) (of_int b - of_int N * (of_int a / of_int R)) R M = 0"
  then have e: "(of_int b :: rat) - of_int N * (of_int a / of_int R)
                  - of_int a / of_int R / of_int M * of_int f = 0"
    by (simp add: signed_error_def ModFrequencyStep_def f_def)
  have pos: "0 < R * M" using assms by simp
  then have "0 < a" using assms(4) by linarith
  then have nz: "R \<noteq> 0" "M \<noteq> 0" "a \<noteq> 0"
    using assms(2,3) by auto
  from exact_candidate_ratio[OF e nz]
  have "(of_int b :: rat) * of_int (R * M) / of_int a \<in> \<int>"
    by (metis Ints_of_int)
  with coprime_ratio_not_int[OF assms(1) pos assms(4)] show False by blast
qed

lemma pf_mod_loop_nonexact:
  assumes "\<forall>M\<in>set ms. 2 \<le> M \<longrightarrow> signed_error ref rem R M \<noteq> 0"
      and "FrequencyError s \<noteq> 0"
  shows "FrequencyError (pf_mod_loop ref rem R N ms s) \<noteq> 0
       \<and> pf_mod_loop ref rem R N (ms @ ms') s
           = pf_mod_loop ref rem R N ms' (pf_mod_loop ref rem R N ms s)"
  using assms
proof (induction ms arbitrary: s)
  case Nil
  then show ?case by simp
next
  case (Cons M ms)
  show ?case
  proof (cases "2 \<le> M")
    case False
    then show ?thesis using Cons by simp
  next
    case True
    let ?s' = "pf_mod_step ref rem R N M s"
    have fe: "FrequencyError ?s' \<noteq> 0"
      using Cons.prems(1) True by (simp add: pf_mod_step_eq)
    have "\<forall>M\<in>set ms. 2 \<le> M \<longrightarrow> signed_error ref rem R M \<noteq> 0"
      using Cons.prems(1) by simp
    from Cons.IH[OF this fe] show ?thesis using True fe by (simp add: Let_def)
  qed
qed

lemma pf_mod_loop_tail:
  assumes ne: "\<forall>M\<in>set ms. 2 \<le> M \<longrightarrow> signed_error ref rem R M \<noteq> 0"
      and s: "FrequencyError s \<noteq> 0"
      and M: "2 \<le> M1" "2 \<le> M2"
      and e1: "signed_error ref rem R M1 \<noteq> 0"
      and lt: "\<bar>signed_error ref rem R M2\<bar> < \<bar>signed_error ref rem R M1\<bar>"
  shows "pf_mod_loop ref rem R N (ms @ [M1, M2]) s =
           s\<lparr>FrequencyError := \<bar>signed_error ref rem R M2\<bar>,
             NegativeFrequencyError := signed_error ref rem R M2 < 0,
             MatchingR := R, MatchingInt := of_int N, MatchingMod := M2,
             MatchingFrac := FracToMatch ref rem R M2\<rparr>"
proof -
  let ?t = "pf_mod_loop ref rem R N ms s"
  from pf_mod_loop_nonexact[OF ne s, of N "[M1, M2]"]
  have split: "pf_mod_loop ref rem R N (ms @ [M1, M2]) s = pf_mod_loop ref rem R N [M1, M2] ?t"
    by blast
  obtain fe neg r n m f where t: "?t =
     s\<lparr>FrequencyError := fe, NegativeFrequencyError := neg,
       MatchingR := r, MatchingInt := n, MatchingMod := m, MatchingFrac := f\<rparr>"
    using pf_mod_loop_shape by blast
  let ?u = "pf_mod_step ref rem R N M1 ?t"
  obtain r' n' m' f' where u: "?u =
     ?t\<lparr>FrequencyError := \<bar>signed_error ref rem R M1\<bar>,
       NegativeFrequencyError := signed_error ref rem R M1 < 0,
       MatchingR := r', MatchingInt := n', MatchingMod := m', MatchingFrac := f'\<rparr>"
    using pf_mod_step_shape by blast
  have feu: "FrequencyError ?u = \<bar>signed_error ref rem R M1\<bar>" by (subst u) simp
  have "pf_mod_loop ref rem R N [M1, M2] ?t = pf_mod_step ref rem R N M2 ?u"
    using M e1 feu by (simp add: Let_def)
  also have "\<dots> = ?u\<lparr>FrequencyError := \<bar>signed_error ref rem R M2\<bar>,
             NegativeFrequencyError := signed_error ref rem R M2 < 0,
             MatchingR := R, MatchingInt := of_int N, MatchingMod := M2,
             MatchingFrac := FracToMatch ref rem R M2\<rparr>"
    using lt feu by (simp add: pf_mod_step_eq)
  also have "\<dots> = s\<lparr>FrequencyError := \<bar>signed_error ref rem R M2\<bar>,
             NegativeFrequencyError := signed_error ref rem R M2 < 0,
             MatchingR := R, MatchingInt := of_int N, MatchingMod := M2,
             MatchingFrac := FracToMatch ref rem R M2\<rparr>"
    by (subst u, subst t) simp
  finally show ?thesis using split by simp
qed

subsection \<open>Stretches of the \<open>R\<close> loops without a match\<close>

lemma pf_integer_loop_nomatch:
  assumes "\<forall>R\<in>set rs. 0 < R \<and> MinimumPFDFrequency \<le> ref / of_int R
              \<and> ref / of_int R \<le> MaximumPFDFrequency s
              \<and> of_int (MinimumInt s) \<le> DesiredFrequency s / (ref / of_int R)
              \<and> DesiredFrequency s / (ref / of_int R) \<le> of_int (MaximumInt s)
              \<and> DesiredFrequency s / (ref / of_int R) \<notin> \<int>"
  shows "pf_integer_loop ref (rs @ rest) s
           = pf_integer_loop ref rest (if rs = [] then s else s\<lparr>MatchAttempted := True\<rparr>)"
  using assms
proof (induction rs arbitrary: s)
  case Nil
  then show ?case by simp
next
  case (Cons R rs)
  let ?s' = "s\<lparr>MatchAttempted := True\<rparr>"
  have "\<forall>R\<in>set rs. 0 < R \<and> MinimumPFDFrequency \<le> ref / of_int R
              \<and> ref / of_int R \<le> MaximumPFDFrequency ?s'
              \<and> of_int (MinimumInt ?s') \<le> DesiredFrequency ?s' / (ref / of_int R)
              \<and> DesiredFrequency ?s' / (ref / of_int R) \<le> of_int (MaximumInt ?s')
              \<and> DesiredFrequency ?s' / (ref / of_int R) \<notin> \<int>"
    using Cons.prems by simp
  from Cons.IH[OF this] have "pf_integer_loop ref (rs @ rest) ?s' = pf_integer_loop ref rest ?s'"
    by (cases "rs = []") simp_all
  then show ?case using Cons.prems by (simp add: Let_def math_remainder_1_zero_iff)
qed

lemma pf_fractional_loop_nonexact:
  assumes "\<forall>R\<in>set rs. 0 < R \<and> MinimumPFDFrequency \<le> ref / of_int R
              \<and> ref / of_int R \<le> MaximumPFDFrequency s
              \<and> MinimumInt s \<le> \<lfloor>DesiredFrequency s / (ref / of_int R)\<rfloor>
              \<and> \<lfloor>DesiredFrequency s / (ref / of_int R)\<rfloor> \<le> MaximumInt s
              \<and> (\<forall>M\<in>set (py_range (MaximumMod + 1)). 2 \<le> M \<longrightarrow>
                    signed_error ref
                      (DesiredFrequency s
                         - of_int \<lfloor>DesiredFrequency s / (ref / of_int R)\<rfloor> * (ref / of_int R))
                      R M \<noteq> 0)"
      and "FrequencyError s \<noteq> 0"
  shows "\<exists>fe neg r n m f. fe \<noteq> 0 \<and>
           pf_fractional_loop ref (rs @ rest) s
             = pf_fractional_loop ref rest
                 ((if rs = [] then s else s\<lparr>MatchAttempted := True\<rparr>)
                    \<lparr>FrequencyError := fe, NegativeFrequencyError := neg,
                     MatchingR := r, MatchingInt := n, MatchingMod := m, MatchingFrac := f\<rparr>)"
  using assms
proof (induction rs arbitrary: s)
  case Nil
  have "s = s\<lparr>FrequencyError := FrequencyError s, NegativeFrequencyError := NegativeFrequencyError s,
       MatchingR := MatchingR s, MatchingInt := MatchingInt s, MatchingMod := MatchingMod s,
       MatchingFrac := MatchingFrac s\<rparr>" by simp
  then have "pf_fractional_loop ref ([] @ rest) s
             = pf_fractional_loop ref rest
                 ((if [] = ([]::int list) then s else s\<lparr>MatchAttempted := True\<rparr>)
                    \<lparr>FrequencyError := FrequencyError s,
                     NegativeFrequencyError := NegativeFrequencyError s,
                     MatchingR := MatchingR s, MatchingInt := MatchingInt s,
                     MatchingMod := MatchingMod s, MatchingFrac := MatchingFrac s\<rparr>)"
    by simp
  with Nil.prems(2) show ?case by blast
next
  case (Cons R rs)
  let ?N = "\<lfloor>DesiredFrequency s / (ref / of_int R)\<rfloor>"
  let ?rem = "DesiredFrequency s - of_int ?N * (ref / of_int R)"
  let ?s1 = "s\<lparr>MatchAttempted := True\<rparr>"
  let ?s' = "pf_mod_loop ref ?rem R ?N (py_range (MaximumMod + 1)) ?s1"
  have R: "0 < R" "MinimumPFDFrequency \<le> ref / of_int R" "ref / of_int R \<le> MaximumPFDFrequency s"
     "MinimumInt s \<le> ?N" "?N \<le> MaximumInt s"
     and ne: "\<forall>M\<in>set (py_range (MaximumMod + 1)). 2 \<le> M \<longrightarrow> signed_error ref ?rem R M \<noteq> 0"
    using Cons.prems(1) by simp_all
  have fe1: "FrequencyError ?s1 \<noteq> 0" using Cons.prems(2) by simp
  from pf_mod_loop_nonexact[OF ne fe1, of ?N "[]"] have fe': "FrequencyError ?s' \<noteq> 0" by blast
  obtain fe neg r n m f where sh: "?s' =
     ?s1\<lparr>FrequencyError := fe, NegativeFrequencyError := neg,
       MatchingR := r, MatchingInt := n, MatchingMod := m, MatchingFrac := f\<rparr>"
    using pf_mod_loop_shape by blast
  have step: "pf_fractional_loop ref ((R # rs) @ rest) s = pf_fractional_loop ref (rs @ rest) ?s'"
    using R fe' by (simp add: Let_def)
  have frame: "DesiredFrequency ?s' = DesiredFrequency s" "MaximumPFDFrequency ?s' = MaximumPFDFrequency s"
     "MinimumInt ?s' = MinimumInt s" "MaximumInt ?s' = MaximumInt s"
    by (subst sh, simp)+
  have prem': "\<forall>R\<in>set rs. 0 < R \<and> MinimumPFDFrequency \<le> ref / of_int R
              \<and> ref / of_int R \<le> MaximumPFDFrequency ?s'
              \<and> MinimumInt ?s' \<le> \<lfloor>DesiredFrequency ?s' / (ref / of_int R)\<rfloor>
              \<and> \<lfloor>DesiredFrequency ?s' / (ref / of_int R)\<rfloor> \<le> MaximumInt ?s'
              \<and> (\<forall>M\<in>set (py_range (MaximumMod + 1)). 2 \<le> M \<longrightarrow>
                    signed_error ref
                      (DesiredFrequency ?s'
                         - of_int \<lfloor>DesiredFrequency ?s' / (ref / of_int R)\<rfloor> * (ref / of_int R))
                      R M \<noteq> 0)"
    unfolding frame using Cons.prems(1) by simp
  from Cons.IH[OF prem' fe'] obtain fe2 neg2 r2 n2 m2 f2 where fe2: "fe2 \<noteq> 0" and
    ih: "pf_fractional_loop ref (rs @ rest) ?s'
             = pf_fractional_loop ref rest
                 ((if rs = [] then ?s' else ?s'\<lparr>MatchAttempted := True\<rparr>)
                    \<lparr>FrequencyError := fe2, NegativeFrequencyError := neg2,
                     MatchingR := r2, MatchingInt := n2, MatchingMod := m2, MatchingFrac := f2\<rparr>)"
    by blast
  have "(if rs = [] then ?s' else ?s'\<lparr>MatchAttempted := True\<rparr>)
                    \<lparr>FrequencyError := fe2, NegativeFrequencyError := neg2,
                     MatchingR := r2, MatchingInt := n2, MatchingMod := m2, MatchingFrac := f2\<rparr>
        = ?s1\<lparr>FrequencyError := fe2, NegativeFrequencyError := neg2,
                     MatchingR := r2, MatchingInt := n2, MatchingMod := m2, MatchingFrac := f2\<rparr>"
    by (subst sh, subst sh) simp
  with ih step fe2 show ?case by (intro exI[of _ fe2] exI[of _ neg2] exI[of _ r2] exI[of _ n2] exI[of _ m2] exI[of _ f2]) simp
qed

subsection \<open>A fixed-reference search traced to its end\<close>

text \<open>Reference 10 MHz, target 2951363636.5 Hz: the VCO frequency is 5902727273 Hz with
  divider 2.  No candidate is exact, so both searches run to their last feasible \<open>R\<close>.\<close>

lemma coprime_certificate:
  fixes a b x y :: int
  assumes "a * x + b * y = 1"
  shows "coprime a b"
proof (rule coprimeI)
  fix c assume "c dvd a" "c dvd b"
  then have "c dvd a * x + b * y" by simp
  then show "is_unit c" using assms by simp
qed

lemma coprime_pf_example: "coprime (10000000::int) 5902727273"
  by (rule coprime_certificate[of _ "- 1967577922" _ 3333337]) simp

lemma product_bound:
  fixes R M :: int
  assumes "0 < R" "R \<le> r" "0 < M" "M \<le> m"
  shows "R * M \<le> r * m"
  using assms by (intro mult_mono) auto

lemma pf_example_nonexact:
  fixes R M N :: int
  assumes "0 < R" "R \<le> 6" "2 \<le> M" "M \<le> 4095"
  shows "signed_error 10000000 (5902727273 - of_int N * (10000000 / of_int R)) R M \<noteq> 0"
proof -
  have "R * M \<le> 6 * 4095" using assms by (intro product_bound) auto
  then have lt: "R * M < 10000000" by simp
  have M: "0 < M" using assms by simp
  from signed_error_nonzero[OF coprime_pf_example assms(1) M lt, of N]
  show ?thesis by simp
qed

lemma pf_example_not_int:
  fixes R :: int
  assumes "0 < R" "R \<le> 80"
  shows "(5902727273 / (10000000 / of_int R) :: rat) \<notin> \<int>"
proof -
  have "R < 10000000" using assms by simp
  from coprime_ratio_not_int[OF coprime_pf_example assms(1) this]
  show ?thesis by simp
qed

lemma range_R_split_80: "py_range (MaximumR + 1) = 0 # ([1..80] @ (81 # [82..1023]))"
proof -
  have "[1..1023] = [1..80] @ [80 + 1..(1023::int)]"
    by (rule upto_split2) simp_all
  moreover have "[81..(1023::int)] = 81 # [81 + 1..1023]" by (rule upto_head) simp
  moreover have "[0..(1023::int)] = 0 # [0 + 1..1023]" by (rule upto_head) simp
  ultimately show ?thesis by (simp add: py_range_def MaximumR_def)
qed

lemma pf_integer_loop_skip_0:
  "pf_integer_loop ref (0 # rs) s = pf_integer_loop ref rs s"
  by simp

lemma pf_integer_loop_below:
  assumes "0 < R" "ref / of_int R < MinimumPFDFrequency"
  shows "pf_integer_loop ref (R # rs) s = s"
  using assms by simp

lemma pf_example_integer:
  assumes s: "DesiredFrequency s = 5902727273" "MinimumInt s = 16" "MaximumInt s = 65535"
             "MaximumPFDFrequency s = 105000000"
  shows "pf_integer_loop 10000000 (py_range (MaximumR + 1)) s = s\<lparr>MatchAttempted := True\<rparr>"
proof -
  have feas: "\<forall>R\<in>set [1..80]. 0 < R \<and> MinimumPFDFrequency \<le> 10000000 / of_int R
              \<and> 10000000 / of_int R \<le> MaximumPFDFrequency s
              \<and> of_int (MinimumInt s) \<le> DesiredFrequency s / (10000000 / of_int R)
              \<and> DesiredFrequency s / (10000000 / of_int R) \<le> of_int (MaximumInt s)
              \<and> DesiredFrequency s / (10000000 / of_int R) \<notin> \<int>"
  proof
    fix R :: int assume "R \<in> set [1..80]"
    then have R: "0 < R" "R \<le> 80" by auto
    then have r: "(0::rat) < of_int R" "(of_int R :: rat) \<le> 80" by auto
    have "MinimumPFDFrequency \<le> 10000000 / of_int R"
      using r by (simp add: MinimumPFDFrequency_def le_divide_eq)
    moreover have "(10000000::rat) / of_int R \<le> MaximumPFDFrequency s"
      using r R by (simp add: s divide_le_eq)
    moreover have "of_int (MinimumInt s) \<le> DesiredFrequency s / (10000000 / of_int R)"
      using r R by (simp add: s le_divide_eq)
    moreover have "DesiredFrequency s / (10000000 / of_int R) \<le> of_int (MaximumInt s)"
      using r by (simp add: s)
    moreover have "DesiredFrequency s / (10000000 / of_int R) \<notin> \<int>"
      using pf_example_not_int[OF R] by (simp add: s)
    ultimately show "0 < R \<and> MinimumPFDFrequency \<le> 10000000 / of_int R
              \<and> 10000000 / of_int R \<le> MaximumPFDFrequency s
              \<and> of_int (MinimumInt s) \<le> DesiredFrequency s / (10000000 / of_int R)
              \<and> DesiredFrequency s / (10000000 / of_int R) \<le> of_int (MaximumInt s)
              \<and> DesiredFrequency s / (10000000 / of_int R) \<notin> \<int>"
      using R by blast
  qed
  have ne: "[1..80] \<noteq> ([]::int list)" by simp
  have "pf_integer_loop 10000000 (py_range (MaximumR + 1)) s
          = pf_integer_loop 10000000 ([1..80] @ (81 # [82..1023])) s"
    unfolding range_R_split_80 by (rule pf_integer_loop_skip_0)
  also have "\<dots> = pf_integer_loop 10000000 (81 # [82..1023]) (s\<lparr>MatchAttempted := True\<rparr>)"
    using pf_integer_loop_nomatch[OF feas, of "81 # [82..1023]"] ne by (simp only: if_False)
  also have "\<dots> = s\<lparr>MatchAttempted := True\<rparr>"
    by (rule pf_integer_loop_below) (simp_all add: MinimumPFDFrequency_def)
  finally show ?thesis .
qed

lemma range_R_split_5: "py_range (MaximumR + 1) = 0 # ([1..5] @ (6 # 7 # [8..1023]))"
proof -
  have "[1..1023] = [1..5] @ [5 + 1..(1023::int)]"
    by (rule upto_split2) simp_all
  moreover have "[6..(1023::int)] = 6 # [6 + 1..1023]" by (rule upto_head) simp
  moreover have "[7..(1023::int)] = 7 # [7 + 1..1023]" by (rule upto_head) simp
  moreover have "[0..(1023::int)] = 0 # [0 + 1..1023]" by (rule upto_head) simp
  ultimately show ?thesis by (simp add: py_range_def MaximumR_def)
qed

lemma range_Mod_split: "py_range (MaximumMod + 1) = (0 # 1 # [2..4093]) @ [4094, 4095]"
proof -
  have "[2..4095] = [2..4093] @ [4093 + 1..(4095::int)]"
    by (rule upto_split2) simp_all
  moreover have "[4094..(4095::int)] = 4094 # [4094 + 1..4095]" by (rule upto_head) simp
  moreover have "[4095..(4095::int)] = [4095]" by simp
  moreover have "[0..(4095::int)] = 0 # [0 + 1..4095]" by (rule upto_head) simp
  moreover have "[1..(4095::int)] = 1 # [1 + 1..4095]" by (rule upto_head) simp
  ultimately show ?thesis by (simp add: py_range_def MaximumMod_def)
qed

lemma pf_fractional_loop_skip_0:
  "pf_fractional_loop ref (0 # rs) s = pf_fractional_loop ref rs s"
  by simp

lemma pf_fractional_loop_feasible:
  assumes "0 < R" "MinimumPFDFrequency \<le> ref / of_int R" "ref / of_int R \<le> MaximumPFDFrequency s"
      and "MinimumInt s \<le> \<lfloor>DesiredFrequency s / (ref / of_int R)\<rfloor>"
      and "\<lfloor>DesiredFrequency s / (ref / of_int R)\<rfloor> \<le> MaximumInt s"
      and "s' = pf_mod_loop ref
                  (DesiredFrequency s
                     - of_int \<lfloor>DesiredFrequency s / (ref / of_int R)\<rfloor> * (ref / of_int R))
                  R \<lfloor>DesiredFrequency s / (ref / of_int R)\<rfloor>
                  (py_range (MaximumMod + 1)) (s\<lparr>MatchAttempted := True\<rparr>)"
  shows "pf_fractional_loop ref (R # rs) s
           = (if FrequencyError s' = 0 then s' else pf_fractional_loop ref rs s')"
  using assms by (simp add: Let_def)

lemma pf_fractional_loop_above:
  assumes "0 < R" "MinimumPFDFrequency \<le> ref / of_int R" "ref / of_int R \<le> MaximumPFDFrequency s"
      and "MaximumInt s < \<lfloor>DesiredFrequency s / (ref / of_int R)\<rfloor>"
  shows "pf_fractional_loop ref (R # rs) s = s"
  using assms by (simp add: Let_def)

lemmas candidate_eval = signed_error_def ModFrequencyStep_def FracToMatch_def round_frac_def
  clamp_frac_def int_trunc_def

lemma pf_example_errors:
  "signed_error 10000000 (3181819 / 3) 6 4094 = 227831 / 2047"
  "signed_error 10000000 (3181819 / 3) 6 4095 = - (90239 / 2457)"
  "FracToMatch 10000000 (3181819 / 3) 6 4095 = 2606"
  by (simp_all add: candidate_eval)

lemma pf_example_fractional:
  assumes s: "DesiredFrequency s = 5902727273" "MinimumInt s = 19" "MaximumInt s = 4091"
             "MaximumPFDFrequency s = 50000000"
      and fe: "FrequencyError s \<noteq> 0"
  shows "pf_fractional_loop 10000000 (py_range (MaximumR + 1)) s
           = s\<lparr>MatchAttempted := True, FrequencyError := 90239 / 2457,
               NegativeFrequencyError := True, MatchingR := 6, MatchingInt := 3541,
               MatchingMod := 4095, MatchingFrac := 2606\<rparr>"
proof -
  have feas: "\<forall>R\<in>set [1..5]. 0 < R \<and> MinimumPFDFrequency \<le> 10000000 / of_int R
              \<and> 10000000 / of_int R \<le> MaximumPFDFrequency s
              \<and> MinimumInt s \<le> \<lfloor>DesiredFrequency s / (10000000 / of_int R)\<rfloor>
              \<and> \<lfloor>DesiredFrequency s / (10000000 / of_int R)\<rfloor> \<le> MaximumInt s
              \<and> (\<forall>M\<in>set (py_range (MaximumMod + 1)). 2 \<le> M \<longrightarrow>
                    signed_error 10000000
                      (DesiredFrequency s
                         - of_int \<lfloor>DesiredFrequency s / (10000000 / of_int R)\<rfloor> * (10000000 / of_int R))
                      R M \<noteq> 0)"
  proof
    fix R :: int assume "R \<in> set [1..5]"
    then have R: "0 < R" "R \<le> 5" by auto
    then have r: "(0::rat) < of_int R" "(of_int R :: rat) \<le> 5" by auto
    have "MinimumPFDFrequency \<le> 10000000 / of_int R"
      using r by (simp add: MinimumPFDFrequency_def le_divide_eq)
    moreover have "(10000000::rat) / of_int R \<le> MaximumPFDFrequency s"
      using r R by (simp add: s divide_le_eq)
    moreover have "MinimumInt s \<le> \<lfloor>DesiredFrequency s / (10000000 / of_int R)\<rfloor>"
      using r R by (simp add: s le_floor_iff le_divide_eq)
    moreover have "\<lfloor>DesiredFrequency s / (10000000 / of_int R)\<rfloor> \<le> MaximumInt s"
      using r by (simp add: s floor_le_iff)
    moreover have "\<forall>M\<in>set (py_range (MaximumMod + 1)). 2 \<le> M \<longrightarrow>
                    signed_error 10000000
                      (DesiredFrequency s
                         - of_int \<lfloor>DesiredFrequency s / (10000000 / of_int R)\<rfloor> * (10000000 / of_int R))
                      R M \<noteq> 0"
      using pf_example_nonexact[of R] R by (simp add: s set_py_range MaximumMod_def)
    ultimately show "0 < R \<and> MinimumPFDFrequency \<le> 10000000 / of_int R
              \<and> 10000000 / of_int R \<le> MaximumPFDFrequency s
              \<and> MinimumInt s \<le> \<lfloor>DesiredFrequency s / (10000000 / of_int R)\<rfloor>
              \<and> \<lfloor>DesiredFrequency s / (10000000 / of_int R)\<rfloor> \<le> MaximumInt s
              \<and> (\<forall>M\<in>set (py_range (MaximumMod + 1)). 2 \<le> M \<longrightarrow>
                    signed_error 10000000
                      (DesiredFrequency s
                         - of_int \<lfloor>DesiredFrequency s / (10000000 / of_int R)\<rfloor> * (10000000 / of_int R))
                      R M \<noteq> 0)"
      using R by blast
  qed
  have ne: "[1..5] \<noteq> ([]::int list)" by simp
  have "pf_fractional_loop 10000000 (py_range (MaximumR + 1)) s
          = pf_fractional_loop 10000000 ([1..5] @ (6 # 7 # [8..1023])) s"
    unfolding range_R_split_5 by (rule pf_fractional_loop_skip_0)
  moreover
  from pf_fractional_loop_nonexact[OF feas fe, of "6 # 7 # [8..1023]"] ne
  obtain fe5 neg r n m f where fe5: "fe5 \<noteq> 0" and
    "pf_fractional_loop 10000000 ([1..5] @ (6 # 7 # [8..1023])) s
       = pf_fractional_loop 10000000 (6 # 7 # [8..1023])
           (s\<lparr>MatchAttempted := True, FrequencyError := fe5, NegativeFrequencyError := neg,
              MatchingR := r, MatchingInt := n, MatchingMod := m, MatchingFrac := f\<rparr>)"
    by (simp only: if_False) blast
  moreover
  define s5 where "s5 = s\<lparr>MatchAttempted := True, FrequencyError := fe5, NegativeFrequencyError := neg,
              MatchingR := r, MatchingInt := n, MatchingMod := m, MatchingFrac := f\<rparr>"
  have s5: "DesiredFrequency s5 = 5902727273" "MinimumInt s5 = 19" "MaximumInt s5 = 4091"
             "MaximumPFDFrequency s5 = 50000000" "FrequencyError s5 \<noteq> 0"
    using s fe5 by (simp_all add: s5_def)
  have N6: "\<lfloor>DesiredFrequency s5 / (10000000 / of_int 6)\<rfloor> = 3541"
    by (simp add: s5)
  have rem: "DesiredFrequency s5 - of_int (3541::int) * (10000000 / of_int (6::int)) = 3181819 / 3"
    by (simp add: s5)
  define s6 where "s6 = pf_mod_loop 10000000 (3181819 / 3) 6 3541 (py_range (MaximumMod + 1))
                          (s5\<lparr>MatchAttempted := True\<rparr>)"
  have ne6: "\<forall>M\<in>set (0 # 1 # [2..4093]). 2 \<le> M \<longrightarrow> signed_error 10000000 (3181819 / 3) 6 M \<noteq> 0"
  proof (intro ballI impI)
    fix M :: int assume "M \<in> set (0 # 1 # [2..4093])" "2 \<le> M"
    then have "M \<le> 4095" by auto
    from pf_example_nonexact[of 6 M 3541] \<open>2 \<le> M\<close> this
    show "signed_error 10000000 (3181819 / 3) 6 M \<noteq> 0" by simp
  qed
  have "s6 = (s5\<lparr>MatchAttempted := True\<rparr>)
               \<lparr>FrequencyError := \<bar>signed_error 10000000 (3181819 / 3) 6 4095\<bar>,
                NegativeFrequencyError := signed_error 10000000 (3181819 / 3) 6 4095 < 0,
                MatchingR := 6, MatchingInt := of_int 3541, MatchingMod := 4095,
                MatchingFrac := FracToMatch 10000000 (3181819 / 3) 6 4095\<rparr>"
    unfolding s6_def range_Mod_split
    by (rule pf_mod_loop_tail[OF ne6]) (simp_all add: s5 pf_example_errors)
  then have s6: "s6 = s\<lparr>MatchAttempted := True, FrequencyError := 90239 / 2457,
               NegativeFrequencyError := True, MatchingR := 6, MatchingInt := 3541,
               MatchingMod := 4095, MatchingFrac := 2606\<rparr>"
    unfolding pf_example_errors by (simp add: s5_def)
  have fe6: "FrequencyError s6 \<noteq> 0" by (simp add: s6)
  have "pf_fractional_loop 10000000 (6 # 7 # [8..1023]) s5
          = (if FrequencyError s6 = 0 then s6 else pf_fractional_loop 10000000 (7 # [8..1023]) s6)"
  proof (rule pf_fractional_loop_feasible)
    show "s6 = pf_mod_loop 10000000
                  (DesiredFrequency s5
                     - of_int \<lfloor>DesiredFrequency s5 / (10000000 / of_int 6)\<rfloor> * (10000000 / of_int 6))
                  6 \<lfloor>DesiredFrequency s5 / (10000000 / of_int 6)\<rfloor>
                  (py_range (MaximumMod + 1)) (s5\<lparr>MatchAttempted := True\<rparr>)"
      by (simp only: N6 rem s6_def)
  qed (simp_all add: s5 MinimumPFDFrequency_def)
  moreover have "pf_fractional_loop 10000000 (7 # [8..1023]) s6 = s6"
    by (rule pf_fractional_loop_above) (simp_all add: s6 s MinimumPFDFrequency_def)
  ultimately show ?thesis using fe6 by (simp add: s5_def s6)
qed


lemma pf_example_search:
  assumes s: "DesiredFrequency s = 5902727273" "MinimumInt s = 16" "MaximumInt s = 65535"
             "MaximumPFDFrequency s = 105000000" "FractionalMode s" "FrequencyError s \<noteq> 0"
  shows "pf_search 10000000 s
           = s\<lparr>MinimumInt := 19, MaximumInt := 4091, MaximumPFDFrequency := 50000000,
                MatchAttempted := True, FrequencyError := 90239 / 2457,
                NegativeFrequencyError := True, MatchingR := 6, MatchingInt := 3541,
                MatchingMod := 4095, MatchingFrac := 2606\<rparr>"
proof -
  have i: "pf_integer_loop 10000000 (py_range (MaximumR + 1)) s = s\<lparr>MatchAttempted := True\<rparr>"
    by (rule pf_example_integer) (simp_all add: s)
  let ?sF = "s\<lparr>MatchAttempted := True, MinimumInt := 19, MaximumInt := 4091,
                 MaximumPFDFrequency := 50000000\<rparr>"
  have f: "pf_fractional_loop 10000000 (py_range (MaximumR + 1)) ?sF
             = ?sF\<lparr>MatchAttempted := True, FrequencyError := 90239 / 2457,
               NegativeFrequencyError := True, MatchingR := 6, MatchingInt := 3541,
               MatchingMod := 4095, MatchingFrac := 2606\<rparr>"
    by (rule pf_example_fractional) (simp_all add: s)
  show ?thesis
    unfolding pf_search_def i pf_fractional_section_def using s(5) by (simp add: f)
qed

lemma pf_example_result:
  "pf_main 10000000 (5902727273 / 2)
     = Some (Fractional_mode (- (90239 / 4914)) (7251500409761 / 2457)
              \<lparr>out_R = 6, out_Int = 3541, out_Mod = 4095, out_Frac = 2606,
               out_Divider = 2, out_PowerOf2 = 1\<rparr>)"
  by (simp add: pf_main_def limits vco_loop_unfold_lt vco_loop_unfold_ge set_divider_def
        pf_initial_def pf_example_search pf_report_def registers_of_def)

subsection \<open>The sweep's searches: shape and stretches without a match\<close>

lemma spf_mod_step_eq:
  "spf_mod_step ref rem R N M s =
     (if \<bar>signed_error (of_int ref) rem R M\<bar> < FrequencyError s
      then s\<lparr>NegativeFrequencyError := signed_error (of_int ref) rem R M < 0,
             FinalReferenceFrequency := ref,
             FrequencyError := \<bar>signed_error (of_int ref) rem R M\<bar>,
             MatchingR := R, MatchingInt := of_int N, MatchingMod := M,
             MatchingFrac := FracToMatch (of_int ref) rem R M\<rparr>
      else s\<lparr>NegativeFrequencyError := signed_error (of_int ref) rem R M < 0\<rparr>)"
  by (simp add: spf_mod_step_def Let_def abs_if)

lemma spf_mod_step_shape:
  "\<exists>fe neg r n m f fr. spf_mod_step ref rem R N M s =
     s\<lparr>FrequencyError := fe, NegativeFrequencyError := neg,
       MatchingR := r, MatchingInt := n, MatchingMod := m, MatchingFrac := f,
       FinalReferenceFrequency := fr\<rparr>
     \<and> (fe = FrequencyError s \<or> fe = \<bar>signed_error (of_int ref) rem R M\<bar>)"
proof (cases "\<bar>signed_error (of_int ref) rem R M\<bar> < FrequencyError s")
  case True
  then have "spf_mod_step ref rem R N M s =
     s\<lparr>FrequencyError := \<bar>signed_error (of_int ref) rem R M\<bar>,
       NegativeFrequencyError := signed_error (of_int ref) rem R M < 0,
       MatchingR := R, MatchingInt := of_int N, MatchingMod := M,
       MatchingFrac := FracToMatch (of_int ref) rem R M,
       FinalReferenceFrequency := ref\<rparr>"
    unfolding spf_mod_step_eq by simp
  then show ?thesis by blast
next
  case False
  then have "spf_mod_step ref rem R N M s =
     s\<lparr>FrequencyError := FrequencyError s,
       NegativeFrequencyError := signed_error (of_int ref) rem R M < 0,
       MatchingR := MatchingR s, MatchingInt := MatchingInt s, MatchingMod := MatchingMod s,
       MatchingFrac := MatchingFrac s,
       FinalReferenceFrequency := FinalReferenceFrequency s\<rparr>"
    unfolding spf_mod_step_eq by simp
  then show ?thesis by blast
qed

lemma spf_mod_loop_shape:
  assumes "\<forall>M\<in>set ms. 2 \<le> M \<longrightarrow> signed_error (of_int ref) rem R M \<noteq> 0"
      and "0 < FrequencyError s"
  shows "\<exists>fe neg r n m f fr. 0 < fe \<and> spf_mod_loop ref rem R N ms s =
     s\<lparr>FrequencyError := fe, NegativeFrequencyError := neg,
       MatchingR := r, MatchingInt := n, MatchingMod := m, MatchingFrac := f,
       FinalReferenceFrequency := fr\<rparr>"
  using assms
proof (induction ms arbitrary: s)
  case Nil
  have "spf_mod_loop ref rem R N [] s = s\<lparr>FrequencyError := FrequencyError s,
       NegativeFrequencyError := NegativeFrequencyError s,
       MatchingR := MatchingR s, MatchingInt := MatchingInt s, MatchingMod := MatchingMod s,
       MatchingFrac := MatchingFrac s,
       FinalReferenceFrequency := FinalReferenceFrequency s\<rparr>" by simp
  with Nil.prems(2) show ?case by blast
next
  case (Cons M ms)
  have rest: "\<forall>M\<in>set ms. 2 \<le> M \<longrightarrow> signed_error (of_int ref) rem R M \<noteq> 0"
    using Cons.prems(1) by simp
  show ?case
  proof (cases "2 \<le> M")
    case False
    then show ?thesis using Cons.IH[OF rest Cons.prems(2)] by simp
  next
    case True
    let ?s' = "spf_mod_step ref rem R N M s"
    obtain fe neg r n m f fr where st: "?s' =
       s\<lparr>FrequencyError := fe, NegativeFrequencyError := neg,
         MatchingR := r, MatchingInt := n, MatchingMod := m, MatchingFrac := f,
         FinalReferenceFrequency := fr\<rparr>"
      and fe: "fe = FrequencyError s \<or> fe = \<bar>signed_error (of_int ref) rem R M\<bar>"
      using spf_mod_step_shape by blast
    have "signed_error (of_int ref) rem R M \<noteq> 0" using Cons.prems(1) True by simp
    with fe Cons.prems(2) have pos: "0 < fe" by auto
    then have pos': "0 < FrequencyError ?s'" by (subst st) simp
    from Cons.IH[OF rest pos'] obtain fe2 neg2 r2 n2 m2 f2 fr2 where
      "0 < fe2" and "spf_mod_loop ref rem R N ms ?s' =
       ?s'\<lparr>FrequencyError := fe2, NegativeFrequencyError := neg2,
         MatchingR := r2, MatchingInt := n2, MatchingMod := m2, MatchingFrac := f2,
         FinalReferenceFrequency := fr2\<rparr>" by blast
    then have "0 < fe2 \<and> spf_mod_loop ref rem R N (M # ms) s =
       s\<lparr>FrequencyError := fe2, NegativeFrequencyError := neg2,
         MatchingR := r2, MatchingInt := n2, MatchingMod := m2, MatchingFrac := f2,
         FinalReferenceFrequency := fr2\<rparr>"
      using True pos' by (simp add: Let_def) (simp add: st)
    then show ?thesis by blast
  qed
qed

lemma spf_integer_loop_nomatch:
  assumes "\<forall>R\<in>set rs. 0 < R \<and> MinimumPFDFrequency \<le> of_int ref / of_int R
              \<and> of_int ref / of_int R \<le> MaximumPFDFrequency s \<longrightarrow>
              of_int (MinimumInt s) \<le> DesiredFrequency s / (of_int ref / of_int R)
              \<and> DesiredFrequency s / (of_int ref / of_int R) \<le> of_int (MaximumInt s)
              \<and> DesiredFrequency s / (of_int ref / of_int R) \<notin> \<int>"
  shows "\<exists>ma. spf_integer_loop ref rs s = s\<lparr>MatchAttempted := ma\<rparr>"
  using assms
proof (induction rs arbitrary: s)
  case Nil
  have "spf_integer_loop ref [] s = s\<lparr>MatchAttempted := MatchAttempted s\<rparr>" by simp
  then show ?case by blast
next
  case (Cons R rs)
  have rest: "\<forall>R\<in>set rs. 0 < R \<and> MinimumPFDFrequency \<le> of_int ref / of_int R
              \<and> of_int ref / of_int R \<le> MaximumPFDFrequency s \<longrightarrow>
              of_int (MinimumInt s) \<le> DesiredFrequency s / (of_int ref / of_int R)
              \<and> DesiredFrequency s / (of_int ref / of_int R) \<le> of_int (MaximumInt s)
              \<and> DesiredFrequency s / (of_int ref / of_int R) \<notin> \<int>"
    using Cons.prems by simp
  show ?case
  proof (cases "0 < R \<and> MinimumPFDFrequency \<le> of_int ref / of_int R
              \<and> of_int ref / of_int R \<le> MaximumPFDFrequency s")
    case False
    then have "spf_integer_loop ref (R # rs) s = spf_integer_loop ref rs s" by auto
    then show ?thesis using Cons.IH[OF rest] by simp
  next
    case True
    with Cons.prems have N: "of_int (MinimumInt s) \<le> DesiredFrequency s / (of_int ref / of_int R)"
       "DesiredFrequency s / (of_int ref / of_int R) \<le> of_int (MaximumInt s)"
       "DesiredFrequency s / (of_int ref / of_int R) \<notin> \<int>" by simp_all
    let ?s' = "s\<lparr>MatchAttempted := True\<rparr>"
    have step: "spf_integer_loop ref (R # rs) s = spf_integer_loop ref rs ?s'"
      using True N by (simp add: Let_def math_remainder_1_zero_iff)
    have "\<forall>R\<in>set rs. 0 < R \<and> MinimumPFDFrequency \<le> of_int ref / of_int R
              \<and> of_int ref / of_int R \<le> MaximumPFDFrequency ?s' \<longrightarrow>
              of_int (MinimumInt ?s') \<le> DesiredFrequency ?s' / (of_int ref / of_int R)
              \<and> DesiredFrequency ?s' / (of_int ref / of_int R) \<le> of_int (MaximumInt ?s')
              \<and> DesiredFrequency ?s' / (of_int ref / of_int R) \<notin> \<int>"
      using rest by simp
    from Cons.IH[OF this] obtain ma where "spf_integer_loop ref rs ?s' = ?s'\<lparr>MatchAttempted := ma\<rparr>"
      by blast
    then have "spf_integer_loop ref (R # rs) s = s\<lparr>MatchAttempted := ma\<rparr>"
      using step by simp
    then show ?thesis by blast
  qed
qed

lemma spf_fractional_loop_nonexact:
  assumes "\<forall>R\<in>set rs. 0 < R \<longrightarrow> (\<forall>N. \<forall>M\<in>set (py_range (MaximumMod + 1)). 2 \<le> M \<longrightarrow>
              signed_error (of_int ref)
                (DesiredFrequency s - of_int N * (of_int ref / of_int R)) R M \<noteq> 0)"
      and "0 < FrequencyError s"
  shows "\<exists>ma fe neg r n m f fr. 0 < fe \<and> spf_fractional_loop ref rs s =
     s\<lparr>MatchAttempted := ma, FrequencyError := fe, NegativeFrequencyError := neg,
       MatchingR := r, MatchingInt := n, MatchingMod := m, MatchingFrac := f,
       FinalReferenceFrequency := fr\<rparr>"
  using assms
proof (induction rs arbitrary: s)
  case Nil
  have "spf_fractional_loop ref [] s = s\<lparr>MatchAttempted := MatchAttempted s,
       FrequencyError := FrequencyError s,
       NegativeFrequencyError := NegativeFrequencyError s,
       MatchingR := MatchingR s, MatchingInt := MatchingInt s, MatchingMod := MatchingMod s,
       MatchingFrac := MatchingFrac s,
       FinalReferenceFrequency := FinalReferenceFrequency s\<rparr>" by simp
  with Nil.prems(2) show ?case by blast
next
  case (Cons R rs)
  have rest: "\<forall>R\<in>set rs. 0 < R \<longrightarrow> (\<forall>N. \<forall>M\<in>set (py_range (MaximumMod + 1)). 2 \<le> M \<longrightarrow>
              signed_error (of_int ref)
                (DesiredFrequency s - of_int N * (of_int ref / of_int R)) R M \<noteq> 0)"
    using Cons.prems(1) by simp
  let ?N = "\<lfloor>DesiredFrequency s / (of_int ref / of_int R)\<rfloor>"
  let ?rem = "DesiredFrequency s - of_int ?N * (of_int ref / of_int R)"
  let ?s1 = "s\<lparr>MatchAttempted := True\<rparr>"
  let ?s' = "spf_mod_loop ref ?rem R ?N (py_range (MaximumMod + 1)) ?s1"
  show ?case
  proof (cases "0 < R \<and> MinimumPFDFrequency \<le> of_int ref / of_int R
              \<and> of_int ref / of_int R \<le> MaximumPFDFrequency s
              \<and> MinimumInt s \<le> ?N \<and> ?N \<le> MaximumInt s")
    case False
    then have "spf_fractional_loop ref (R # rs) s = spf_fractional_loop ref rs s"
      by (auto simp: Let_def)
    then show ?thesis using Cons.IH[OF rest Cons.prems(2)] by simp
  next
    case True
    then have "0 < R" by simp
    with Cons.prems(1) have ne: "\<forall>M\<in>set (py_range (MaximumMod + 1)). 2 \<le> M \<longrightarrow>
              signed_error (of_int ref) ?rem R M \<noteq> 0" by simp
    have "0 < FrequencyError ?s1" using Cons.prems(2) by simp
    from spf_mod_loop_shape[OF ne this, of ?N] obtain fe neg r n m f fr where fe: "0 < fe" and
      sh: "?s' = ?s1\<lparr>FrequencyError := fe, NegativeFrequencyError := neg,
         MatchingR := r, MatchingInt := n, MatchingMod := m, MatchingFrac := f,
         FinalReferenceFrequency := fr\<rparr>" by blast
    have fe': "0 < FrequencyError ?s'" using fe by (subst sh) simp
    have step: "spf_fractional_loop ref (R # rs) s = spf_fractional_loop ref rs ?s'"
      using True fe' by (simp add: Let_def)
    have D: "DesiredFrequency ?s' = DesiredFrequency s" by (subst sh) simp
    have rest': "\<forall>R\<in>set rs. 0 < R \<longrightarrow> (\<forall>N. \<forall>M\<in>set (py_range (MaximumMod + 1)). 2 \<le> M \<longrightarrow>
              signed_error (of_int ref)
                (DesiredFrequency ?s' - of_int N * (of_int ref / of_int R)) R M \<noteq> 0)"
      unfolding D using rest by simp
    from Cons.IH[OF rest' fe'] obtain ma2 fe2 neg2 r2 n2 m2 f2 fr2 where "0 < fe2" and
      "spf_fractional_loop ref rs ?s' =
         ?s'\<lparr>MatchAttempted := ma2, FrequencyError := fe2, NegativeFrequencyError := neg2,
           MatchingR := r2, MatchingInt := n2, MatchingMod := m2, MatchingFrac := f2,
           FinalReferenceFrequency := fr2\<rparr>" by blast
    then have "0 < fe2 \<and> spf_fractional_loop ref (R # rs) s =
         s\<lparr>MatchAttempted := ma2, FrequencyError := fe2, NegativeFrequencyError := neg2,
           MatchingR := r2, MatchingInt := n2, MatchingMod := m2, MatchingFrac := f2,
           FinalReferenceFrequency := fr2\<rparr>"
      unfolding step by (subst (asm) sh, subst (asm) sh) simp
    then show ?thesis by blast
  qed
qed

subsection \<open>Unrolling a loop over a range on demand\<close>

lemma pf_integer_loop_upto:
  "pf_integer_loop ref [i..j] s = (if i \<le> j then pf_integer_loop ref (i # [i + 1..j]) s else s)"
  by (simp add: upto_rec1 del: pf_integer_loop.simps(2))

lemma pf_fractional_loop_upto:
  "pf_fractional_loop ref [i..j] s = (if i \<le> j then pf_fractional_loop ref (i # [i + 1..j]) s else s)"
  by (simp add: upto_rec1 del: pf_fractional_loop.simps(2))

lemma pf_mod_loop_upto:
  "pf_mod_loop ref rem R N [i..j] s = (if i \<le> j then pf_mod_loop ref rem R N (i # [i + 1..j]) s else s)"
  by (simp add: upto_rec1 del: pf_mod_loop.simps(2))

lemma spf_integer_loop_upto:
  "spf_integer_loop ref [i..j] s = (if i \<le> j then spf_integer_loop ref (i # [i + 1..j]) s else s)"
  by (simp add: upto_rec1 del: spf_integer_loop.simps(2))

lemma spf_fractional_loop_upto:
  "spf_fractional_loop ref [i..j] s = (if i \<le> j then spf_fractional_loop ref (i # [i + 1..j]) s else s)"
  by (simp add: upto_rec1 del: spf_fractional_loop.simps(2))

lemma spf_mod_loop_upto:
  "spf_mod_loop ref rem R N [i..j] s = (if i \<le> j then spf_mod_loop ref rem R N (i # [i + 1..j]) s else s)"
  by (simp add: upto_rec1 del: spf_mod_loop.simps(2))

lemma py_range_1: "py_range 1 = [0]"
  by (simp add: py_range_def)

lemma py_range_2: "py_range 2 = [0, 1]"
proof -
  have "[0..(1::int)] = 0 # [0 + 1..1]" by (rule upto_head) simp
  then show ?thesis by (simp add: py_range_def)
qed

lemmas unroll = py_range_1 py_range_2 py_range_R py_range_Mod pf_integer_loop_upto pf_fractional_loop_upto
  pf_mod_loop_upto spf_integer_loop_upto spf_fractional_loop_upto spf_mod_loop_upto

lemmas script_eval = limits vco_loop_unfold_lt vco_loop_unfold_ge
  set_divider_def pf_initial_def spf_initial_def pf_search_def pf_fractional_section_def
  spf_integer_section_def spf_fractional_section_def pf_report_def spf_report_def
  registers_of_def math_remainder_def round_half_even_def candidate_eval
  pf_mod_step_def spf_mod_step_def spf_clamp_def Let_def

subsection \<open>Short runs of both scripts\<close>

lemma pf_200MHz_result: "pf_main 200000000 3000000000 = Some Not_possible"
  by (simp add: pf_main_def script_eval unroll)

lemma spf_200MHz_result:
  "spf_main 3000000000 200000000 0
     = Some (False, Sweep_integer_mode
              \<lparr>out_R = 2, out_Int = 30, out_Mod = 2, out_Frac = 0,
               out_Divider = 1, out_PowerOf2 = 0\<rparr> 200000000)"
  by (simp add: spf_main_def script_eval unroll)

lemma pf_100MHz_result:
  "pf_main 100000000 2400000000
     = Some (Integer_mode
              \<lparr>out_R = 1, out_Int = 48, out_Mod = 2, out_Frac = 0,
               out_Divider = 2, out_PowerOf2 = 1\<rparr>)"
  by (simp add: pf_main_def script_eval unroll)

subsection \<open>A two-step sweep traced to its end\<close>

text \<open>Target 3 GHz, start reference 199999999 Hz, one step.  At the first reference no
  candidate of either mode is exact; at the second, 200 MHz, the fractional search finds
  an exact match at \<open>R = 4\<close>.\<close>

lemma coprime_spf_example: "coprime (199999999::int) 3000000000"
  by (rule coprime_certificate[of _ 799999999 _ "- 53333333"]) simp

lemma spf_example_nonexact:
  fixes R M N :: int
  assumes "0 < R" "R \<le> 1023" "2 \<le> M" "M \<le> 4095"
  shows "signed_error 199999999 (3000000000 - of_int N * (199999999 / of_int R)) R M \<noteq> 0"
proof -
  have "R * M \<le> 1023 * 4095" using assms by (intro product_bound) auto
  then have lt: "R * M < 199999999" by simp
  have M: "0 < M" using assms by simp
  from signed_error_nonzero[OF coprime_spf_example assms(1) M lt, of N]
  show ?thesis by simp
qed

lemma spf_example_not_int:
  fixes R :: int
  assumes "0 < R" "R \<le> 1023"
  shows "(3000000000 / (199999999 / of_int R) :: rat) \<notin> \<int>"
proof -
  have "R < 199999999" using assms by simp
  from coprime_ratio_not_int[OF coprime_spf_example assms(1) this]
  show ?thesis by simp
qed

lemma spf_example_step0:
  assumes s: "DesiredFrequency s = 3000000000" "MinimumInt s = 16" "MaximumInt s = 65535"
             "IntegerMode s" "FractionalMode s" "0 < FrequencyError s"
  shows "\<exists>ma fe neg r n m f fr. 0 < fe \<and>
           FractionalMode (spf_integer_section 199999999 s) \<and>
           spf_fractional_section 199999999 (spf_integer_section 199999999 s)
             = s\<lparr>MaximumPFDFrequency := 50000000, MinimumInt := 19, MaximumInt := 4091,
                 IntegerMode := False, MatchAttempted := ma, FrequencyError := fe,
                 NegativeFrequencyError := neg, MatchingR := r, MatchingInt := n,
                 MatchingMod := m, MatchingFrac := f, FinalReferenceFrequency := fr\<rparr>"
proof -
  let ?s1 = "s\<lparr>MaximumPFDFrequency := 105000000\<rparr>"
  have "\<forall>R\<in>set (py_range (MaximumR + 1)).
          0 < R \<and> MinimumPFDFrequency \<le> of_int 199999999 / of_int R
              \<and> of_int 199999999 / of_int R \<le> MaximumPFDFrequency ?s1 \<longrightarrow>
              of_int (MinimumInt ?s1) \<le> DesiredFrequency ?s1 / (of_int 199999999 / of_int R)
              \<and> DesiredFrequency ?s1 / (of_int 199999999 / of_int R) \<le> of_int (MaximumInt ?s1)
              \<and> DesiredFrequency ?s1 / (of_int 199999999 / of_int R) \<notin> \<int>"
  proof (intro ballI impI)
    fix R :: int
    assume "R \<in> set (py_range (MaximumR + 1))"
    then have R: "R \<le> 1023" by (simp add: set_py_range MaximumR_def)
    assume a: "0 < R \<and> MinimumPFDFrequency \<le> of_int 199999999 / of_int R
              \<and> of_int 199999999 / of_int R \<le> MaximumPFDFrequency ?s1"
    then have "0 < R" and "(199999999::rat) / of_int R \<le> 105000000" by simp_all
    then have "(199999999::rat) \<le> 105000000 * of_int R" by (simp add: divide_le_eq)
    then have "(of_int 199999999 :: rat) \<le> of_int (105000000 * R)" by simp
    then have "199999999 \<le> 105000000 * R" by (simp only: of_int_le_iff)
    then have R2: "2 \<le> R" by simp
    then have r: "(2::rat) \<le> of_int R" "(of_int R :: rat) \<le> 1023" using R by simp_all
    have "of_int (MinimumInt ?s1) \<le> DesiredFrequency ?s1 / (of_int 199999999 / of_int R)"
      using r by (simp add: s le_divide_eq)
    moreover have "DesiredFrequency ?s1 / (of_int 199999999 / of_int R) \<le> of_int (MaximumInt ?s1)"
      using r by (simp add: s)
    moreover have "DesiredFrequency ?s1 / (of_int 199999999 / of_int R) \<notin> \<int>"
      using spf_example_not_int[OF \<open>0 < R\<close> R] by (simp add: s)
    ultimately show "of_int (MinimumInt ?s1) \<le> DesiredFrequency ?s1 / (of_int 199999999 / of_int R)
              \<and> DesiredFrequency ?s1 / (of_int 199999999 / of_int R) \<le> of_int (MaximumInt ?s1)
              \<and> DesiredFrequency ?s1 / (of_int 199999999 / of_int R) \<notin> \<int>" by blast
  qed
  from spf_integer_loop_nomatch[OF this] obtain ma where
    "spf_integer_loop 199999999 (py_range (MaximumR + 1)) ?s1 = ?s1\<lparr>MatchAttempted := ma\<rparr>"
    by blast
  then have i: "spf_integer_section 199999999 s = ?s1\<lparr>MatchAttempted := ma\<rparr>"
    using s(4) by (simp add: spf_integer_section_def)
  let ?s2 = "s\<lparr>MaximumPFDFrequency := 50000000, MinimumInt := 19, MaximumInt := 4091,
                 IntegerMode := False, MatchAttempted := ma\<rparr>"
  have "\<forall>R\<in>set (py_range (MaximumR + 1)). 0 < R \<longrightarrow>
          (\<forall>N. \<forall>M\<in>set (py_range (MaximumMod + 1)). 2 \<le> M \<longrightarrow>
              signed_error (of_int 199999999)
                (DesiredFrequency ?s2 - of_int N * (of_int 199999999 / of_int R)) R M \<noteq> 0)"
    using spf_example_nonexact by (simp add: set_py_range MaximumR_def MaximumMod_def s)
  moreover have "0 < FrequencyError ?s2" using s(6) by simp
  ultimately obtain ma' fe neg r n m f fr where "0 < fe" and
    "spf_fractional_loop 199999999 (py_range (MaximumR + 1)) ?s2 =
       ?s2\<lparr>MatchAttempted := ma', FrequencyError := fe, NegativeFrequencyError := neg,
         MatchingR := r, MatchingInt := n, MatchingMod := m, MatchingFrac := f,
         FinalReferenceFrequency := fr\<rparr>"
    using spf_fractional_loop_nonexact[of "py_range (MaximumR + 1)" 199999999 ?s2] by blast
  moreover have "spf_fractional_section 199999999 (spf_integer_section 199999999 s)
                   = spf_fractional_loop 199999999 (py_range (MaximumR + 1)) ?s2"
    using s(5) i by (cases s) (simp add: spf_fractional_section_def)
  moreover have "?s2\<lparr>MatchAttempted := ma', FrequencyError := fe, NegativeFrequencyError := neg,
         MatchingR := r, MatchingInt := n, MatchingMod := m, MatchingFrac := f,
         FinalReferenceFrequency := fr\<rparr>
       = s\<lparr>MaximumPFDFrequency := 50000000, MinimumInt := 19, MaximumInt := 4091,
                 IntegerMode := False, MatchAttempted := ma', FrequencyError := fe,
                 NegativeFrequencyError := neg, MatchingR := r, MatchingInt := n,
                 MatchingMod := m, MatchingFrac := f, FinalReferenceFrequency := fr\<rparr>"
    by simp
  moreover have "FractionalMode (spf_integer_section 199999999 s)"
    using s(5) by (simp add: i)
  ultimately show ?thesis by metis
qed

lemma spf_example_step1:
  assumes t: "DesiredFrequency t = 3000000000" "\<not> IntegerMode t" "0 < FrequencyError t"
  shows "spf_sweep_loop 199999999 [1] t
           = Some (t\<lparr>FractionalMode := True,
                     MatchingDivider := 2 ^ MatchingDivider_PowerOf2 t,
                     IntegerMode := False, MinimumInt := 19, MaximumInt := 4091,
                     MaximumPFDFrequency := 50000000, MatchAttempted := True,
                     NegativeFrequencyError := False, FinalReferenceFrequency := 200000000,
                     FrequencyError := 0, MatchingR := 4, MatchingInt := 60,
                     MatchingMod := 2, MatchingFrac := 0\<rparr>)"
proof -
  have "spf_sweep_loop 199999999 [1] t
           = Some (t\<lparr>FractionalMode := True,
                     MatchingDivider := 2 ^ MatchingDivider_PowerOf2 t,
                     IntegerMode := False, MinimumInt := 19, MaximumInt := 4091,
                     MaximumPFDFrequency := 50000000, MatchAttempted := True,
                     NegativeFrequencyError := False, FinalReferenceFrequency := 200000000,
                     FrequencyError := 0, MatchingR := 4, MatchingInt := 60,
                     MatchingMod := 2, MatchingFrac := 0\<rparr>)"
    using t by (cases t) (simp add: script_eval unroll)
  then show ?thesis .
qed


lemma spf_sweep_loop_continue:
  assumes "spf_MinimumRFFrequency \<le> DesiredFrequency s" "DesiredFrequency s \<le> MaximumRFFrequency"
      and "\<not> DesiredFrequency s < MaximumRFFrequency / 2"
      and "sA = set_divider (s\<lparr>FractionalMode := True\<rparr>)"
      and "FractionalMode (spf_integer_section (start + i) sA)"
      and "s3 = spf_fractional_section (start + i) (spf_integer_section (start + i) sA)"
      and "FrequencyError s3 \<noteq> 0"
  shows "spf_sweep_loop start (i # steps) s = spf_sweep_loop start steps s3"
  using assms by (simp add: Let_def vco_loop_unfold_ge)

lemma spf_example_result:
  "spf_main 3000000000 199999999 1
     = Some (False, Sweep_fractional_mode 0 3000000000
              \<lparr>out_R = 4, out_Int = 60, out_Mod = 2, out_Frac = 0,
               out_Divider = 1, out_PowerOf2 = 0\<rparr> 200000000)"
proof -
  define sA where "sA = set_divider ((spf_initial 3000000000)\<lparr>FractionalMode := True\<rparr>)"
  have sA: "DesiredFrequency sA = 3000000000" "MinimumInt sA = 16" "MaximumInt sA = 65535"
           "IntegerMode sA" "FractionalMode sA" "0 < FrequencyError sA"
    by (simp_all add: sA_def set_divider_def spf_initial_def MaximumReferenceFrequency_def)
  define s3 where "s3 = spf_fractional_section 199999999 (spf_integer_section 199999999 sA)"
  from spf_example_step0[OF sA] obtain ma fe neg r n m f fr where fe: "0 < fe"
    and fm: "FractionalMode (spf_integer_section 199999999 sA)"
    and s3: "s3 = sA\<lparr>MaximumPFDFrequency := 50000000, MinimumInt := 19, MaximumInt := 4091,
                 IntegerMode := False, MatchAttempted := ma, FrequencyError := fe,
                 NegativeFrequencyError := neg, MatchingR := r, MatchingInt := n,
                 MatchingMod := m, MatchingFrac := f, FinalReferenceFrequency := fr\<rparr>"
    unfolding s3_def by blast
  have t: "DesiredFrequency s3 = 3000000000" "\<not> IntegerMode s3" "0 < FrequencyError s3"
    using sA fe by (simp_all add: s3)
  have "spf_sweep_loop 199999999 [0, 1] (spf_initial 3000000000)
          = spf_sweep_loop 199999999 [1] s3"
  proof (rule spf_sweep_loop_continue[where sA = sA])
    show "FractionalMode (spf_integer_section (199999999 + 0) sA)" using fm by simp
    show "s3 = spf_fractional_section (199999999 + 0) (spf_integer_section (199999999 + 0) sA)"
      by (simp add: s3_def)
    show "FrequencyError s3 \<noteq> 0" using t(3) by simp
  qed (simp_all add: sA_def spf_initial_def limits)
  also have "\<dots> = Some (s3\<lparr>FractionalMode := True,
                     MatchingDivider := 2 ^ MatchingDivider_PowerOf2 s3,
                     IntegerMode := False, MinimumInt := 19, MaximumInt := 4091,
                     MaximumPFDFrequency := 50000000, MatchAttempted := True,
                     NegativeFrequencyError := False, FinalReferenceFrequency := 200000000,
                     FrequencyError := 0, MatchingR := 4, MatchingInt := 60,
                     MatchingMod := 2, MatchingFrac := 0\<rparr>)"
    by (rule spf_example_step1[OF t])
  finally have loop: "spf_sweep_loop 199999999 [0, 1] (spf_initial 3000000000)
          = Some (s3\<lparr>FractionalMode := True,
                     MatchingDivider := 2 ^ MatchingDivider_PowerOf2 s3,
                     IntegerMode := False, MinimumInt := 19, MaximumInt := 4091,
                     MaximumPFDFrequency := 50000000, MatchAttempted := True,
                     NegativeFrequencyError := False, FinalReferenceFrequency := 200000000,
                     FrequencyError := 0, MatchingR := 4, MatchingInt := 60,
                     MatchingMod := 2, MatchingFrac := 0\<rparr>)" .
  have clamp: "spf_clamp 199999999 1 = (199999999, 1)"
    by (simp add: spf_clamp_def Let_def limits)
  have r2: "py_range (1 + 1) = [0, 1]" by (simp add: py_range_2)
  show ?thesis
    unfolding spf_main_def clamp
    by (simp only: prod.case r2 loop option.case)
       (simp add: spf_report_def registers_of_def s3 sA_def set_divider_def spf_initial_def)
qed

subsection \<open>The integer loops: no match, or the first exact candidate\<close>

lemma pf_integer_loop_cases:
  assumes "sorted_wrt (<) rs"
      and lim: "MinimumInt s = 16" "MaximumInt s = 65535" "MaximumPFDFrequency s = 105000000"
  shows "(\<exists>ma. pf_integer_loop ref rs s = s\<lparr>MatchAttempted := ma\<rparr>)
       \<or> (\<exists>R\<in>set rs. exact_integer_candidate ref (DesiredFrequency s) R
             \<and> (\<forall>R'\<in>set rs. R' < R \<longrightarrow> \<not> exact_integer_candidate ref (DesiredFrequency s) R')
             \<and> pf_integer_loop ref rs s
                 = s\<lparr>MatchAttempted := True, FractionalMode := False, MatchingR := R,
                     MatchingInt := DesiredFrequency s / (ref / of_int R)\<rparr>)"
  using assms
proof (induction rs arbitrary: s)
  case Nil
  have "pf_integer_loop ref [] s = s\<lparr>MatchAttempted := MatchAttempted s\<rparr>" by simp
  then show ?case by blast
next
  case (Cons R rs)
  let ?N = "DesiredFrequency s / (ref / of_int R)"
  have sorted: "sorted_wrt (<) rs" and above: "\<forall>R'\<in>set rs. R < R'"
    using Cons.prems(1) by simp_all
  consider
      (skip) "\<not> 0 < R"
    | (stop) "0 < R" "\<not> (MinimumPFDFrequency \<le> ref / of_int R \<and> ref / of_int R \<le> 105000000
                        \<and> 16 \<le> ?N \<and> ?N \<le> 65535)"
    | (match) "exact_integer_candidate ref (DesiredFrequency s) R"
    | (miss) "0 < R" "MinimumPFDFrequency \<le> ref / of_int R" "ref / of_int R \<le> 105000000"
             "16 \<le> ?N" "?N \<le> 65535" "math_remainder ?N 1 \<noteq> 0"
    unfolding exact_integer_candidate_def by blast
  then show ?case
  proof cases
    case skip
    then have step: "pf_integer_loop ref (R # rs) s = pf_integer_loop ref rs s" by simp
    have nc: "\<not> exact_integer_candidate ref (DesiredFrequency s) R"
      using skip by (simp add: exact_integer_candidate_def)
    from Cons.IH[OF sorted Cons.prems(2-4)] show ?thesis
      unfolding step using nc by auto
  next
    case stop
    then have "pf_integer_loop ref (R # rs) s = s"
      using Cons.prems(2-4) by (auto simp: Let_def)
    then have "pf_integer_loop ref (R # rs) s = s\<lparr>MatchAttempted := MatchAttempted s\<rparr>" by simp
    then show ?thesis by blast
  next
    case match
    then have "pf_integer_loop ref (R # rs) s
                 = s\<lparr>MatchAttempted := True, FractionalMode := False, MatchingR := R,
                     MatchingInt := ?N\<rparr>"
      using Cons.prems(2-4) by (simp add: exact_integer_candidate_def Let_def)
    moreover have "\<forall>R'\<in>set (R # rs). R' < R \<longrightarrow> \<not> exact_integer_candidate ref (DesiredFrequency s) R'"
      using above by auto
    ultimately show ?thesis using match by auto
  next
    case miss
    let ?s' = "s\<lparr>MatchAttempted := True\<rparr>"
    have step: "pf_integer_loop ref (R # rs) s = pf_integer_loop ref rs ?s'"
      using miss Cons.prems(2-4) by (simp add: Let_def)
    have nc: "\<not> exact_integer_candidate ref (DesiredFrequency s) R"
      using miss by (simp add: exact_integer_candidate_def)
    have lim': "MinimumInt ?s' = 16" "MaximumInt ?s' = 65535" "MaximumPFDFrequency ?s' = 105000000"
      using Cons.prems(2-4) by simp_all
    from Cons.IH[OF sorted lim'] show ?thesis
    proof
      assume "\<exists>ma. pf_integer_loop ref rs ?s' = ?s'\<lparr>MatchAttempted := ma\<rparr>"
      then obtain ma where "pf_integer_loop ref (R # rs) s = s\<lparr>MatchAttempted := ma\<rparr>"
        unfolding step by auto
      then show ?thesis by blast
    next
      assume "\<exists>R\<in>set rs. exact_integer_candidate ref (DesiredFrequency ?s') R
             \<and> (\<forall>R'\<in>set rs. R' < R \<longrightarrow> \<not> exact_integer_candidate ref (DesiredFrequency ?s') R')
             \<and> pf_integer_loop ref rs ?s'
                 = ?s'\<lparr>MatchAttempted := True, FractionalMode := False, MatchingR := R,
                     MatchingInt := DesiredFrequency ?s' / (ref / of_int R)\<rparr>"
      then obtain R0 where R0: "R0 \<in> set rs" "exact_integer_candidate ref (DesiredFrequency s) R0"
          "\<forall>R'\<in>set rs. R' < R0 \<longrightarrow> \<not> exact_integer_candidate ref (DesiredFrequency s) R'"
          "pf_integer_loop ref rs ?s'
                 = s\<lparr>MatchAttempted := True, FractionalMode := False, MatchingR := R0,
                     MatchingInt := DesiredFrequency s / (ref / of_int R0)\<rparr>"
        by auto
      have "\<forall>R'\<in>set (R # rs). R' < R0 \<longrightarrow> \<not> exact_integer_candidate ref (DesiredFrequency s) R'"
        using R0(3) nc by auto
      with R0 show ?thesis unfolding step by auto
    qed
  qed
qed

lemma spf_integer_loop_cases:
  assumes "sorted_wrt (<) rs"
      and lim: "MinimumInt s = 16" "MaximumInt s = 65535" "MaximumPFDFrequency s = 105000000"
  shows "(\<exists>ma. spf_integer_loop ref rs s = s\<lparr>MatchAttempted := ma\<rparr>)
       \<or> (\<exists>R\<in>set rs. exact_integer_candidate (of_int ref) (DesiredFrequency s) R
             \<and> (\<forall>R'\<in>set rs. R' < R \<longrightarrow> \<not> exact_integer_candidate (of_int ref) (DesiredFrequency s) R')
             \<and> spf_integer_loop ref rs s
                 = s\<lparr>MatchAttempted := True, FractionalMode := False, MatchingR := R,
                     MatchingInt := DesiredFrequency s / (of_int ref / of_int R),
                     MatchingMod := 2, MatchingFrac := 0, FinalReferenceFrequency := ref\<rparr>)"
  using assms
proof (induction rs arbitrary: s)
  case Nil
  have "spf_integer_loop ref [] s = s\<lparr>MatchAttempted := MatchAttempted s\<rparr>" by simp
  then show ?case by blast
next
  case (Cons R rs)
  let ?N = "DesiredFrequency s / (of_int ref / of_int R)"
  have sorted: "sorted_wrt (<) rs" and above: "\<forall>R'\<in>set rs. R < R'"
    using Cons.prems(1) by simp_all
  consider
      (skip) "\<not> (0 < R \<and> MinimumPFDFrequency \<le> of_int ref / of_int R
                   \<and> (of_int ref :: rat) / of_int R \<le> 105000000)"
    | (stop) "0 < R" "MinimumPFDFrequency \<le> of_int ref / of_int R"
             "(of_int ref :: rat) / of_int R \<le> 105000000" "\<not> (16 \<le> ?N \<and> ?N \<le> 65535)"
    | (match) "exact_integer_candidate (of_int ref) (DesiredFrequency s) R"
    | (miss) "0 < R" "MinimumPFDFrequency \<le> of_int ref / of_int R"
             "(of_int ref :: rat) / of_int R \<le> 105000000"
             "16 \<le> ?N" "?N \<le> 65535" "math_remainder ?N 1 \<noteq> 0"
    unfolding exact_integer_candidate_def by blast
  then show ?case
  proof cases
    case skip
    then have step: "spf_integer_loop ref (R # rs) s = spf_integer_loop ref rs s"
      using Cons.prems(2-4) by auto
    have nc: "\<not> exact_integer_candidate (of_int ref) (DesiredFrequency s) R"
      using skip by (auto simp: exact_integer_candidate_def)
    from Cons.IH[OF sorted Cons.prems(2-4)] show ?thesis
      unfolding step using nc by auto
  next
    case stop
    then have "spf_integer_loop ref (R # rs) s = s"
      using Cons.prems(2-4) by (auto simp: Let_def)
    then have "spf_integer_loop ref (R # rs) s = s\<lparr>MatchAttempted := MatchAttempted s\<rparr>" by simp
    then show ?thesis by blast
  next
    case match
    then have "spf_integer_loop ref (R # rs) s
                 = s\<lparr>MatchAttempted := True, FractionalMode := False, MatchingR := R,
                     MatchingInt := ?N, MatchingMod := 2, MatchingFrac := 0,
                     FinalReferenceFrequency := ref\<rparr>"
      using Cons.prems(2-4) by (simp add: exact_integer_candidate_def Let_def)
    moreover have "\<forall>R'\<in>set (R # rs). R' < R \<longrightarrow>
                     \<not> exact_integer_candidate (of_int ref) (DesiredFrequency s) R'"
      using above by auto
    ultimately show ?thesis using match by auto
  next
    case miss
    let ?s' = "s\<lparr>MatchAttempted := True\<rparr>"
    have step: "spf_integer_loop ref (R # rs) s = spf_integer_loop ref rs ?s'"
      using miss Cons.prems(2-4) by (simp add: Let_def)
    have nc: "\<not> exact_integer_candidate (of_int ref) (DesiredFrequency s) R"
      using miss by (simp add: exact_integer_candidate_def)
    have lim': "MinimumInt ?s' = 16" "MaximumInt ?s' = 65535" "MaximumPFDFrequency ?s' = 105000000"
      using Cons.prems(2-4) by simp_all
    from Cons.IH[OF sorted lim'] show ?thesis
    proof
      assume "\<exists>ma. spf_integer_loop ref rs ?s' = ?s'\<lparr>MatchAttempted := ma\<rparr>"
      then obtain ma where "spf_integer_loop ref (R # rs) s = s\<lparr>MatchAttempted := ma\<rparr>"
        unfolding step by auto
      then show ?thesis by blast
    next
      assume "\<exists>R\<in>set rs. exact_integer_candidate (of_int ref) (DesiredFrequency ?s') R
             \<and> (\<forall>R'\<in>set rs. R' < R \<longrightarrow> \<not> exact_integer_candidate (of_int ref) (DesiredFrequency ?s') R')
             \<and> spf_integer_loop ref rs ?s'
                 = ?s'\<lparr>MatchAttempted := True, FractionalMode := False, MatchingR := R,
                     MatchingInt := DesiredFrequency ?s' / (of_int ref / of_int R),
                     MatchingMod := 2, MatchingFrac := 0, FinalReferenceFrequency := ref\<rparr>"
      then obtain R0 where R0: "R0 \<in> set rs"
          "exact_integer_candidate (of_int ref) (DesiredFrequency s) R0"
          "\<forall>R'\<in>set rs. R' < R0 \<longrightarrow> \<not> exact_integer_candidate (of_int ref) (DesiredFrequency s) R'"
          "spf_integer_loop ref rs ?s'
                 = s\<lparr>MatchAttempted := True, FractionalMode := False, MatchingR := R0,
                     MatchingInt := DesiredFrequency s / (of_int ref / of_int R0),
                     MatchingMod := 2, MatchingFrac := 0, FinalReferenceFrequency := ref\<rparr>"
        by auto
      have "\<forall>R'\<in>set (R # rs). R' < R0 \<longrightarrow>
              \<not> exact_integer_candidate (of_int ref) (DesiredFrequency s) R'"
        using R0(3) nc by auto
      with R0 show ?thesis unfolding step by auto
    qed
  qed
qed

subsection \<open>Normalisation at the upper end of the range\<close>

theorem vco_range_counterexample:
  "pf_MinimumRFFrequency \<le> 6000000000 \<and> (6000000000::rat) \<le> MaximumRFFrequency
   \<and> vco_loop (pf_initial 10000000 6000000000) = Some (pf_initial 10000000 6000000000)
   \<and> DesiredFrequency (pf_initial 10000000 6000000000) = 6000000000
   \<and> \<not> DesiredFrequency (pf_initial 10000000 6000000000) < MaximumRFFrequency"
  by (simp add: limits vco_loop_unfold_ge pf_initial_def)

theorem vco_normalisation_witness:
  "0 < DesiredFrequency (pf_initial 10000000 (5902727273 / 2))
   \<and> DesiredFrequency (pf_initial 10000000 (5902727273 / 2)) \<le> MaximumRFFrequency
   \<and> vco_loop (pf_initial 10000000 (5902727273 / 2))
        = Some ((pf_initial 10000000 (5902727273 / 2))
                  \<lparr>MatchingDivider_PowerOf2 := 1, DesiredFrequency := 5902727273\<rparr>)
   \<and> MaximumRFFrequency / 2 \<le> 5902727273 \<and> (5902727273::rat) < MaximumRFFrequency"
proof -
  let ?s = "pf_initial 10000000 (5902727273 / 2)"
  have h1: "0 < DesiredFrequency ?s" by (simp add: pf_initial_def)
  have h2: "DesiredFrequency ?s \<le> MaximumRFFrequency" by (simp add: pf_initial_def limits)
  have run: "vco_loop ?s = Some (?s\<lparr>MatchingDivider_PowerOf2 := 1, DesiredFrequency := 5902727273\<rparr>)"
    by (simp add: vco_loop_unfold_lt vco_loop_unfold_ge pf_initial_def limits)
  from vco_normalisation[OF h1 h2] obtain k where
    k: "vco_loop ?s = Some (?s\<lparr>MatchingDivider_PowerOf2 := MatchingDivider_PowerOf2 ?s + k,
                                  DesiredFrequency := DesiredFrequency ?s * 2 ^ k\<rparr>)"
       "MaximumRFFrequency / 2 \<le> DesiredFrequency ?s * 2 ^ k"
       "DesiredFrequency ?s < MaximumRFFrequency \<longrightarrow>
          DesiredFrequency ?s * 2 ^ k < MaximumRFFrequency"
    by blast
  from k(1) run have "?s\<lparr>MatchingDivider_PowerOf2 := MatchingDivider_PowerOf2 ?s + k,
                                  DesiredFrequency := DesiredFrequency ?s * 2 ^ k\<rparr>
       = ?s\<lparr>MatchingDivider_PowerOf2 := 1, DesiredFrequency := 5902727273\<rparr>" by simp
  then have "DesiredFrequency (?s\<lparr>MatchingDivider_PowerOf2 := MatchingDivider_PowerOf2 ?s + k,
                                  DesiredFrequency := DesiredFrequency ?s * 2 ^ k\<rparr>)
       = DesiredFrequency (?s\<lparr>MatchingDivider_PowerOf2 := 1, DesiredFrequency := 5902727273\<rparr>)"
    by (rule arg_cong)
  then have "DesiredFrequency ?s * 2 ^ k = 5902727273" by simp
  with k(2,3) h1 h2 run show ?thesis by (simp add: pf_initial_def limits)
qed

subsection \<open>A PFD frequency out of range in the fixed-reference integer search\<close>

text \<open>
  Claim C4 on \<^verbatim>\<open>MAX2870pf.py\<close>.  Reference 200 MHz, target 3 GHz: at \<open>R = 1\<close> the PFD
  frequency, 200 MHz, is above the limit, and \<open>R = 2\<close> is an exact integer candidate
  (PFD 100 MHz, \<open>N = 30\<close>).  The fixed-reference script stops both of its \<open>R\<close> loops at
  \<open>R = 1\<close> and reports that no result is possible; the sweep script, whose integer loop
  goes on to the next \<open>R\<close>, returns \<open>R = 2\<close>, \<open>N = 30\<close> for the same request.
\<close>

theorem pf_stops_at_pfd_out_of_range:
  "\<not> (200000000 / of_int 1 \<le> (105000000::rat))
   \<and> exact_integer_candidate 200000000 3000000000 2
   \<and> pf_main 200000000 3000000000 = Some Not_possible
   \<and> spf_main 3000000000 200000000 0
        = Some (False, Sweep_integer_mode
                 \<lparr>out_R = 2, out_Int = 30, out_Mod = 2, out_Frac = 0,
                  out_Divider = 1, out_PowerOf2 = 0\<rparr> 200000000)"
  by (simp add: pf_200MHz_result spf_200MHz_result exact_integer_candidate_def limits
        math_remainder_def round_half_even_def)

subsection \<open>The fixed-reference fractional search does not keep the best candidate\<close>

text \<open>
  Claim C1 on \<^verbatim>\<open>MAX2870pf.py\<close>.  Reference 10 MHz, target 2951363636.5 Hz (VCO frequency
  5902727273 Hz, divider 2).  The script returns \<open>R = 6\<close>, \<open>N = 3541\<close>, \<open>MOD = 4095\<close>,
  \<open>FRAC = 2606\<close>, a candidate whose error is \<open>90239 / 2457\<close> Hz (about 36.7 Hz) in
  absolute value.  The candidate \<open>R = 1\<close>, \<open>MOD = 11\<close> is feasible (PFD 10 MHz,
  \<open>N = 590\<close>), comes earlier in the search, and has the error \<open>3 / 11\<close> Hz: the script
  compares each candidate with the one before it, not with the best one so far.
\<close>

theorem pf_result_not_minimal:
  "pf_main 10000000 (5902727273 / 2)
     = Some (Fractional_mode (- (90239 / 4914)) (7251500409761 / 2457)
              \<lparr>out_R = 6, out_Int = 3541, out_Mod = 4095, out_Frac = 2606,
               out_Divider = 2, out_PowerOf2 = 1\<rparr>)
   \<and> \<lfloor>5902727273 / (10000000 / of_int 6) :: rat\<rfloor> = 3541
   \<and> \<bar>signed_error 10000000 (5902727273 - 3541 * (10000000 / of_int 6)) 6 4095\<bar> = 90239 / 2457
   \<and> FracToMatch 10000000 (5902727273 - 3541 * (10000000 / of_int 6)) 6 4095 = 2606
   \<and> MinimumPFDFrequency \<le> 10000000 / of_int 1 \<and> (10000000 / of_int 1 :: rat) \<le> 50000000
   \<and> \<lfloor>5902727273 / (10000000 / of_int 1) :: rat\<rfloor> = 590
   \<and> \<bar>signed_error 10000000 (5902727273 - 590 * (10000000 / of_int 1)) 1 11\<bar> = 3 / 11
   \<and> (3 / 11 :: rat) < 90239 / 2457"
  by (simp add: pf_example_result limits pf_example_errors) (simp add: candidate_eval)

subsection \<open>Both scripts return\<close>

lemma spf_sweep_loop_returns: "\<exists>t. spf_sweep_loop start steps s = Some t"
proof (induction steps arbitrary: s)
  case Nil
  show ?case by simp
next
  case (Cons i steps)
  let ?s0 = "s\<lparr>FractionalMode := True\<rparr>"
  show ?case
  proof (cases "spf_MinimumRFFrequency \<le> DesiredFrequency ?s0
                  \<and> DesiredFrequency ?s0 \<le> MaximumRFFrequency")
    case False
    then show ?thesis by (auto simp: Let_def)
  next
    case True
    then have "0 < DesiredFrequency ?s0" by (simp add: spf_MinimumRFFrequency_def)
    from vco_normalisation[OF this] True obtain s1 where s1: "vco_loop ?s0 = Some s1" by blast
    let ?s2 = "spf_integer_section (start + i) (set_divider s1)"
    let ?s3 = "spf_fractional_section (start + i) ?s2"
    from Cons.IH[of ?s3] obtain t where "spf_sweep_loop start steps ?s3 = Some t" by blast
    with True s1 show ?thesis by (auto simp: Let_def)
  qed
qed

text \<open>
  Claim C10.  Both scripts return on every request: for a target in
  \<open>[RF_min, RF_max]\<close> the doubling loop gets a positive frequency and returns (lemma
  \<open>vco_loop_bounded\<close>: after at most \<open>n\<close> passes when \<open>target * 2 ^ n\<close> reaches
  \<open>RF_max / 2\<close>), every other loop runs over a finite list, and outside the range the
  doubling loop is not entered.
\<close>

theorem solvers_return:
  "(\<exists>out. pf_main ref rf = Some out) \<and> (\<exists>out. spf_main rf start steps = Some out)"
proof
  show "\<exists>out. pf_main ref rf = Some out"
  proof (cases "of_int MinimumReferenceFrequency \<le> ref \<and> ref \<le> of_int MaximumReferenceFrequency
                 \<and> pf_MinimumRFFrequency \<le> rf \<and> rf \<le> MaximumRFFrequency")
    case False
    then show ?thesis by (auto simp: pf_main_def)
  next
    case True
    then have "0 < DesiredFrequency (pf_initial ref rf)"
          "DesiredFrequency (pf_initial ref rf) \<le> MaximumRFFrequency"
      by (simp_all add: pf_initial_def pf_MinimumRFFrequency_def)
    from vco_normalisation[OF this] obtain s where "vco_loop (pf_initial ref rf) = Some s" by blast
    with True show ?thesis by (simp add: pf_main_def)
  qed
next
  obtain a b where c: "spf_clamp start steps = (a, b)" by (cases "spf_clamp start steps")
  obtain t where "spf_sweep_loop a (py_range (b + 1)) (spf_initial rf) = Some t"
    using spf_sweep_loop_returns by blast
  then show "\<exists>out. spf_main rf start steps = Some out"
    by (simp add: spf_main_def c)
qed

end
